theory Spec2Isabelle
  imports Main "HOL-Library.Word" "HOL-Library.Sublist"
begin

section \<open>SentryFlow: the event pipeline\<close>

text \<open>
  A shallow embedding of the parts of SentryFlow that the specification makes claims
  about: the fan-out stage and the orchestrator loop of \<open>pkg/core/sentryflow.go\<close>, the
  F5 BIG-IP line parser of \<open>pkg/receiver/other/f5-big-ip/f5-big-ip.go\<close>, the Pub/Sub
  callback of \<open>pkg/receiver/other/gcp/gcp.go\<close>, and \<open>buildHTTPClient\<close> of the HTTP
  exporter. Go strings are byte sequences and are modelled as \<open>string\<close>; the
  integers \<open>uint64\<close>, \<open>int64\<close> and \<open>int32\<close> are words, so that arithmetic wraps as it
  does in Go. A run-time panic of the Go program is a value of the model.
\<close>

subsection \<open>The canonical event\<close>

type_synonym headers = "string \<rightharpoonup> string"

record Metadata =
  ContextId :: "32 word"
  Timestamp :: "64 word"
  MeshId :: string
  NodeName :: string
  ReceiverName :: string
  ReceiverVersion :: string

record Workload =
  Name :: string
  Namespace :: string
  Ip :: string
  Port :: "32 word"

record Request =
  Headers :: headers
  Body :: string

record Response =
  RHeaders :: headers
  RBody :: string
  BackendLatencyInNanos :: "64 word"

record APIEvent =
  Metadata :: Metadata
  Source :: Workload
  Destination :: Workload
  Request :: Request
  Response :: Response
  Protocol :: string

subsection \<open>Buffered channels and the fan-out stage\<close>

text \<open>
  A buffered Go channel is its buffer and its capacity. The statement
  \<^verbatim>\<open>select { case out <- ev: default: drops++ }\<close> sends when the buffer has room and
  takes the default branch otherwise.
\<close>

record 'a chan =
  buf :: "'a list"
  cap :: nat

definition make_chan :: "nat \<Rightarrow> 'a chan" where
  "make_chan n = \<lparr>buf = [], cap = n\<rparr>"

definition full :: "'a chan \<Rightarrow> bool" where
  "full c = (cap c \<le> length (buf c))"

definition send :: "'a chan \<Rightarrow> 'a \<Rightarrow> 'a chan" where
  "send c x = c\<lparr>buf := buf c @ [x]\<rparr>"

definition try_send :: "'a chan \<Rightarrow> 'a \<Rightarrow> 'a chan option" where
  "try_send c x = (if full c then None else Some (send c x))"

definition recv :: "'a chan \<Rightarrow> ('a \<times> 'a chan) option" where
  "recv c = (case buf c of [] \<Rightarrow> None | x # xs \<Rightarrow> Some (x, c\<lparr>buf := xs\<rparr>))"

record fanoutStats =
  inCount :: "64 word"
  grpcDrop :: "64 word"
  httpDrop :: "64 word"

record 'a fanout =
  stats :: fanoutStats
  grpcOut :: "'a chan"
  httpOut :: "'a chan"
  stopped :: bool

text \<open>The body of \<open>case ev, ok := <-in\<close> with \<open>ok\<close> true, lines 242 to 256.\<close>

definition fanOut_event :: "'a fanout \<Rightarrow> 'a \<Rightarrow> 'a fanout" where
  "fanOut_event f ev =
    (let s1 = (stats f)\<lparr>inCount := inCount (stats f) + 1\<rparr>;
         (g, s2) = (case try_send (grpcOut f) ev of
                      Some g' \<Rightarrow> (g', s1)
                    | None \<Rightarrow> (grpcOut f, s1\<lparr>grpcDrop := grpcDrop s1 + 1\<rparr>));
         (h, s3) = (case try_send (httpOut f) ev of
                      Some h' \<Rightarrow> (h', s2)
                    | None \<Rightarrow> (httpOut f, s2\<lparr>httpDrop := httpDrop s2 + 1\<rparr>))
     in f\<lparr>stats := s3, grpcOut := g, httpOut := h\<rparr>)"

text \<open>
  What the \<open>select\<close> of the loop may observe, and what the two consumers do between
  two iterations: the exporters drain their own queue.
\<close>

datatype 'a fan_step =
    CtxDone
  | Tick
  | InRecv 'a
  | InClosed
  | GrpcTake
  | HttpTake

definition drain :: "'a chan \<Rightarrow> 'a chan" where
  "drain c = (case recv c of None \<Rightarrow> c | Some (_, c') \<Rightarrow> c')"

fun fanOut_step :: "'a fanout \<Rightarrow> 'a fan_step \<Rightarrow> 'a fanout" where
  "fanOut_step f CtxDone = f\<lparr>stopped := True\<rparr>"
| "fanOut_step f Tick = f"
| "fanOut_step f (InRecv ev) = fanOut_event f ev"
| "fanOut_step f InClosed = f\<lparr>stopped := True\<rparr>"
| "fanOut_step f GrpcTake = f\<lparr>grpcOut := drain (grpcOut f)\<rparr>"
| "fanOut_step f HttpTake = f\<lparr>httpOut := drain (httpOut f)\<rparr>"

fun fanOutAPIEvents :: "'a fanout \<Rightarrow> 'a fan_step list \<Rightarrow> 'a fanout" where
  "fanOutAPIEvents f [] = f"
| "fanOutAPIEvents f (s # ss) =
     (if stopped f then f else fanOutAPIEvents (fanOut_step f s) ss)"

definition fanout_init :: "nat \<Rightarrow> nat \<Rightarrow> 'a fanout" where
  "fanout_init n m =
     \<lparr>stats = \<lparr>inCount = 0, grpcDrop = 0, httpDrop = 0\<rparr>,
      grpcOut = make_chan n, httpOut = make_chan m, stopped = False\<rparr>"

subsection \<open>Go's \<open>strings\<close> package\<close>

text \<open>
  \<open>strings.Index\<close> returns the byte offset of the first occurrence of the substring,
  or \<open>-1\<close>. \<open>IndexOpt\<close> is the search itself, \<open>Index\<close> the value Go returns.
\<close>

fun IndexOpt :: "string \<Rightarrow> string \<Rightarrow> nat option" where
  "IndexOpt [] t = (if t = [] then Some 0 else None)"
| "IndexOpt (c # cs) t =
     (if prefix t (c # cs) then Some 0 else map_option Suc (IndexOpt cs t))"

definition Index :: "string \<Rightarrow> string \<Rightarrow> int" where
  "Index s t = (case IndexOpt s t of None \<Rightarrow> - 1 | Some i \<Rightarrow> int i)"

definition Contains :: "string \<Rightarrow> string \<Rightarrow> bool" where
  "Contains s t = (0 \<le> Index s t)"

text \<open>
  \<open>strings.Split(s, sep)\<close> cuts at every occurrence of \<open>sep\<close>, found from left to right with
  \<open>Index\<close>; with an empty separator it explodes the string into its bytes.
  \<open>SplitN_2\<close> is \<open>strings.SplitN(s, sep, 2)\<close> for a separator that is not empty: it
  cuts at the first occurrence only.
\<close>

function Split :: "string \<Rightarrow> string \<Rightarrow> string list" where
  "Split s sep =
     (if sep = [] then map (\<lambda>c. [c]) s
      else case IndexOpt s sep of
        None \<Rightarrow> [s]
      | Some i \<Rightarrow> take i s # Split (drop (i + length sep) s) sep)"
  by pat_completeness auto
termination
proof (relation "measure (\<lambda>(s, sep). length s)")
  show "wf (measure (\<lambda>(s, sep). length s))" by simp
next
  fix s sep :: string and i
  assume sep: "sep \<noteq> []" and found: "IndexOpt s sep = Some i"
  have bound: "IndexOpt u sep = Some j \<Longrightarrow> j + length sep \<le> length u" for u j
  proof (induction u arbitrary: j)
    case Nil
    then show ?case by (simp split: if_splits)
  next
    case (Cons c cs)
    show ?case
    proof (cases "prefix sep (c # cs)")
      case True
      then have "length sep \<le> length (c # cs)" by (rule prefix_length_le)
      with True Cons.prems show ?thesis by simp
    next
      case False
      with Cons.prems obtain k where "IndexOpt cs sep = Some k" "j = Suc k" by auto
      with Cons.IH show ?thesis by fastforce
    qed
  qed
  from sep have "1 \<le> length sep" by (simp add: Suc_le_eq)
  with bound [OF found] have "length (drop (i + length sep) s) < length s"
    unfolding length_drop by linarith
  then show "((drop (i + length sep) s, sep), (s, sep)) \<in> measure (\<lambda>(s, sep). length s)"
    by simp
qed

declare Split.simps [simp del]

definition SplitN_2 :: "string \<Rightarrow> string \<Rightarrow> string list" where
  "SplitN_2 s sep =
     (case IndexOpt s sep of
        None \<Rightarrow> [s]
      | Some m \<Rightarrow> [take m s, drop (m + length sep) s])"

fun Join :: "string list \<Rightarrow> string \<Rightarrow> string" where
  "Join [] sep = []"
| "Join [a] sep = a"
| "Join (a # b # bs) sep = a @ sep @ Join (b # bs) sep"

text \<open>
  \<open>strings.TrimSpace\<close> on ASCII text: the white space of Go's \<open>asciiSpace\<close> table is
  tab, line feed, vertical tab, form feed, carriage return and space. (On a byte above
  127 Go switches to Unicode white space; lines are taken to be ASCII.)
  \<open>strings.Trim(s, cutset)\<close> removes the leading and trailing bytes that are in the
  cutset.
\<close>

definition isSpace :: "char \<Rightarrow> bool" where
  "isSpace c = ((of_char c :: int) \<in> {9, 10, 11, 12, 13, 32})"

definition TrimSpace :: "string \<Rightarrow> string" where
  "TrimSpace s = rev (dropWhile isSpace (rev (dropWhile isSpace s)))"

definition Trim :: "string \<Rightarrow> string \<Rightarrow> string" where
  "Trim s cutset =
     rev (dropWhile (\<lambda>c. c \<in> set cutset) (rev (dropWhile (\<lambda>c. c \<in> set cutset) s)))"

subsection \<open>Go's \<open>strconv\<close> package\<close>

text \<open>
  \<open>strconv.ParseUint(s, 10, 64)\<close>: a syntax error yields 0; an overflow yields the
  largest value together with a range error, at the digit where it is noticed.
  \<open>strconv.ParseInt(s, 10, 64)\<close> picks off a sign, parses the magnitude and clamps a
  magnitude that is out of range. The result is an \<open>int64\<close>, here a 64-bit word read
  in two's complement. \<open>strconv.Atoi\<close> is \<open>ParseInt\<close> with the platform's \<open>int\<close>, taken
  to be 64 bits wide.
\<close>

datatype numError = ErrSyntax | ErrRange

definition isDigit :: "char \<Rightarrow> bool" where
  "isDigit c = (48 \<le> (of_char c :: int) \<and> (of_char c :: int) \<le> 57)"

definition digit :: "char \<Rightarrow> int" where
  "digit c = of_char c - 48"

definition maxUint64 :: int where
  "maxUint64 = 18446744073709551615"

fun ParseUint_loop :: "int \<Rightarrow> string \<Rightarrow> int \<times> numError option" where
  "ParseUint_loop n [] = (n, None)"
| "ParseUint_loop n (c # cs) =
     (if \<not> isDigit c then (0, Some ErrSyntax)
      else if maxUint64 div 10 + 1 \<le> n then (maxUint64, Some ErrRange)
      else let n1 = n * 10 + digit c
           in if maxUint64 < n1 then (maxUint64, Some ErrRange)
              else ParseUint_loop n1 cs)"

definition ParseUint :: "string \<Rightarrow> int \<times> numError option" where
  "ParseUint s = (if s = [] then (0, Some ErrSyntax) else ParseUint_loop 0 s)"

definition ParseInt :: "string \<Rightarrow> 64 word \<times> numError option" where
  "ParseInt s0 =
     (if s0 = [] then (0, Some ErrSyntax)
      else
        let neg = (hd s0 = CHR ''-'');
            s = (if hd s0 = CHR ''+'' \<or> hd s0 = CHR ''-'' then tl s0 else s0);
            (un, err) = ParseUint s
        in if err = Some ErrSyntax then (0, err)
           else if \<not> neg \<and> 9223372036854775808 \<le> un
             then (9223372036854775807, Some ErrRange)
           else if neg \<and> 9223372036854775808 < un
             then (- 9223372036854775808, Some ErrRange)
           else (if neg then - word_of_int un else word_of_int un, None))"

definition Atoi :: "string \<Rightarrow> 64 word \<times> numError option" where
  "Atoi s = ParseInt s"

subsection \<open>Go's \<open>encoding/base64\<close> package\<close>

text \<open>
  \<open>base64.StdEncoding.DecodeString\<close>: the standard alphabet with mandatory padding;
  line feeds and carriage returns are skipped. The input is decoded four symbols at a
  time; at the first corrupt quantum the bytes decoded so far are returned together
  with an error. The result is the decoded text and whether there was an error.
\<close>

definition decodeMap :: "char \<Rightarrow> int option" where
  "decodeMap c =
     (let n = (of_char c :: int)
      in if 65 \<le> n \<and> n \<le> 90 then Some (n - 65)
         else if 97 \<le> n \<and> n \<le> 122 then Some (n - 71)
         else if 48 \<le> n \<and> n \<le> 57 then Some (n + 4)
         else if n = 43 then Some 62
         else if n = 47 then Some 63
         else None)"

definition isNewline :: "char \<Rightarrow> bool" where
  "isNewline c = ((of_char c :: int) \<in> {10, 13})"

text \<open>The first \<open>dlen - 1\<close> bytes of the 24 bits that the symbols of a quantum make.\<close>

definition quantum_bytes :: "int list \<Rightarrow> string" where
  "quantum_bytes dbuf =
     (let d = dbuf @ replicate (4 - length dbuf) 0;
          val = (d ! 0) * 2 ^ 18 + (d ! 1) * 2 ^ 12 + (d ! 2) * 2 ^ 6 + (d ! 3)
      in take (length dbuf - 1)
           [char_of (val div 2 ^ 16), char_of (val div 2 ^ 8), char_of val])"

definition padding_tail :: "string \<Rightarrow> int list \<Rightarrow> string \<Rightarrow> string \<times> bool" where
  "padding_tail out dbuf cs =
     (out @ quantum_bytes dbuf, dropWhile isNewline cs \<noteq> [])"

fun decode :: "string \<Rightarrow> int list \<Rightarrow> string \<Rightarrow> string \<times> bool" where
  "decode out dbuf [] = (out, dbuf \<noteq> [])"
| "decode out dbuf (c # cs) =
     (case decodeMap c of
        Some v \<Rightarrow>
          (if length dbuf = 3 then decode (out @ quantum_bytes (dbuf @ [v])) [] cs
           else decode out (dbuf @ [v]) cs)
      | None \<Rightarrow>
          (if isNewline c then decode out dbuf cs
           else if c \<noteq> CHR ''='' then (out, True)
           else if length dbuf < 2 then (out, True)
           else if length dbuf = 2 then
             (case dropWhile isNewline cs of
                [] \<Rightarrow> (out, True)
              | d # ds \<Rightarrow> if d \<noteq> CHR ''='' then (out, True) else padding_tail out dbuf ds)
           else padding_tail out dbuf cs))"

definition DecodeString :: "string \<Rightarrow> string \<times> bool" where
  "DecodeString s = decode [] [] s"

subsection \<open>Panics and the logger\<close>

text \<open>
  Reading a slice element out of range and slicing with bounds out of order stop a Go
  program with a run-time panic; so does a method call that reads through a nil
  pointer. A function that may panic returns \<open>panic + 'a\<close>.
\<close>

datatype panic =
    NilPointerDereference
  | IndexOutOfRange nat nat
  | SliceBoundsOutOfRange int int

definition and_then :: "panic + 'a \<Rightarrow> ('a \<Rightarrow> panic + 'b) \<Rightarrow> panic + 'b" where
  "and_then m f = (case m of Inl p \<Rightarrow> Inl p | Inr x \<Rightarrow> f x)"

definition at :: "'a list \<Rightarrow> nat \<Rightarrow> panic + 'a" where
  "at xs i = (if i < length xs then Inr (xs ! i) else Inl (IndexOutOfRange i (length xs)))"

definition slice :: "string \<Rightarrow> int \<Rightarrow> int \<Rightarrow> panic + string" where
  "slice s lo hi =
     (if 0 \<le> lo \<and> lo \<le> hi \<and> hi \<le> int (length s)
      then Inr (take (nat hi - nat lo) (drop (nat lo) s))
      else Inl (SliceBoundsOutOfRange lo hi))"

text \<open>
  A \<open>*zap.SugaredLogger\<close> is a pointer: \<open>None\<close> is the nil pointer. The methods
  \<open>Error\<close> and \<open>Errorf\<close> read the fields of their receiver, so a call on nil panics;
  on a logger the call appends its message (the format string of the call) to the log.

  The package variable \<open>logger\<close> of the F5 receiver (line 31) is declared without a
  value, and nothing in the package assigns it: the \<open>logger := ...\<close> of \<open>Start\<close>
  (line 34) declares a local variable of the same name. Its value is the zero value
  of a pointer.
\<close>

datatype SugaredLogger = SugaredLogger

definition zap_Error :: "SugaredLogger option \<Rightarrow> string \<Rightarrow> panic + string list" where
  "zap_Error lg msg =
     (case lg of None \<Rightarrow> Inl NilPointerDereference | Some _ \<Rightarrow> Inr [msg])"

definition logger :: "SugaredLogger option" where
  "logger = None"

subsection \<open>The F5 BIG-IP line parser\<close>

definition DELIM :: string where "DELIM = ''__''"
definition HSL_START :: string where
  "HSL_START = ''__HSL_START__ __HSL_START__ __HSL_START__ __HSL_START__ __HSL_START__ __HSL_START__''"
definition HSL_END :: string where "HSL_END = ''__HSL_END__''"
definition REQHS :: string where "REQHS = ''__REQHS__''"
definition REQHE :: string where "REQHE = ''__REQHE__''"
definition HEAN :: string where "HEAN = ''__HEAN__''"
definition HEAV :: string where "HEAV = ''__HEAV__''"
definition RESPHS :: string where "RESPHS = ''__RESPHS__''"
definition RESPHE :: string where "RESPHE = ''__RESPHE__''"
definition REQPS :: string where "REQPS = ''__REQPS__''"
definition REQPE :: string where "REQPE = ''__REQPE__''"

text \<open>The body of the loop of \<open>extractHeaders\<close>, lines 199 to 212, for one section.\<close>

definition header_section :: "headers \<Rightarrow> string \<Rightarrow> headers" where
  "header_section out sec =
     (if \<not> Contains sec HEAV then out
      else let kv = SplitN_2 sec HEAV
           in if length kv \<noteq> 2 then out
              else let key = Trim (TrimSpace (kv ! 0)) ''_'';
                       val = Trim (TrimSpace (kv ! 1)) ''_''
                   in out(key \<mapsto> val))"

text \<open>\<open>extractHeaders\<close> returns the map and the rest of the text; its error is always nil.\<close>

definition extractHeaders :: "string \<Rightarrow> string \<Rightarrow> string \<Rightarrow> headers \<times> string" where
  "extractHeaders s startTag endTag =
     (let startIdx = Index s startTag
      in if startIdx < 0 then (Map.empty, s)
         else let tmp = drop (nat startIdx + length startTag) s;
                  endIdx = Index tmp endTag
              in if endIdx < 0 then (Map.empty, s)
                 else let headerPart = take (nat endIdx) tmp;
                          rest = drop (nat endIdx + length endTag) tmp;
                          sections = Split headerPart HEAN
                      in (foldl header_section Map.empty sections, rest))"

text \<open>Lines 121 to 129: the request payload, between \<open>REQPS\<close> and \<open>REQPE\<close>.\<close>

definition requestPayload :: "string \<Rightarrow> string" where
  "requestPayload rest =
     (let idx = Index rest REQPS
      in if 0 \<le> idx then
           let tmp = drop (nat idx + length REQPS) rest; i2 = Index tmp REQPE
           in if 0 \<le> i2 then fst (DecodeString (TrimSpace (take (nat i2) tmp))) else []
         else [])"

text \<open>
  Lines 132 to 142: the response payload, from \<open>REQPE\<close> to the end. A decoding error
  is logged, and the bytes decoded before the error are kept.
\<close>

definition responsePayload ::
  "SugaredLogger option \<Rightarrow> string \<Rightarrow> panic + (string \<times> string list)" where
  "responsePayload lg rest =
     (let idx = Index rest REQPE
      in if 0 \<le> idx then
           let tmp = drop (nat idx + length REQPE) rest;
               (raw, err) = DecodeString (TrimSpace tmp)
           in if err then
                and_then (zap_Error lg ''error decoding base64 string %v'')
                  (\<lambda>log. Inr (raw, log))
              else Inr (raw, [])
         else Inr ([], []))"

text \<open>Lines 100 to 177, from the twelve fixed fields and the list of all parts.\<close>

definition buildEvent ::
  "SugaredLogger option \<Rightarrow> string list \<Rightarrow> string list \<Rightarrow> panic + (APIEvent \<times> string list)" where
  "buildEvent lg fixed parts =
     (let scheme = fixed ! 0; path = fixed ! 1; method = fixed ! 2; query = fixed ! 3;
          sourceIP = fixed ! 4; sourcePortStr = fixed ! 5;
          destIP = fixed ! 6; destPortStr = fixed ! 7;
          protocol = fixed ! 8; responseStatusCode = fixed ! 9;
          reqTimeStr = fixed ! 10; respTimeStr = fixed ! 11;
          sourcePort = fst (Atoi sourcePortStr);
          destPort = fst (Atoi destPortStr);
          reqTime = fst (ParseInt reqTimeStr);
          respTime = fst (ParseInt respTimeStr);
          rest = Join (drop 12 parts) '' '';
          (reqHeaders0, rest1) = extractHeaders rest REQHS REQHE;
          reqHeaders = reqHeaders0
            ('':scheme'' \<mapsto> scheme, '':path'' \<mapsto> path,
             '':method'' \<mapsto> method, '':query'' \<mapsto> query);
          (respHeaders0, rest2) = extractHeaders rest1 RESPHS RESPHE;
          respHeaders = respHeaders0('':status'' \<mapsto> responseStatusCode);
          reqBody = requestPayload rest2
      in and_then (responsePayload lg rest2) (\<lambda>(respBody, log).
           Inr (\<lparr>Metadata = \<lparr>ContextId = 0, Timestamp = reqTime, MeshId = [],
                     NodeName = [], ReceiverName = ''f5-big-ip'',
                     ReceiverVersion = ''16.1''\<rparr>,
                  Source = \<lparr>Name = [], Namespace = [], Ip = sourceIP,
                     Port = ucast sourcePort\<rparr>,
                  Destination = \<lparr>Name = [], Namespace = [], Ip = destIP,
                     Port = ucast destPort\<rparr>,
                  Request = \<lparr>Headers = reqHeaders, Body = reqBody\<rparr>,
                  Response = \<lparr>RHeaders = respHeaders, RBody = respBody,
                     BackendLatencyInNanos = (respTime - reqTime) * 1000000\<rparr>,
                  Protocol = protocol\<rparr>, log)))"

text \<open>
  Lines 87 to 98 read \<open>parts[0]\<close> to \<open>parts[11]\<close> in this order; each read panics when
  the index is not below the length.
\<close>

definition fixedFields :: "string list \<Rightarrow> panic + string list" where
  "fixedFields parts =
     and_then (at parts 0) (\<lambda>scheme. and_then (at parts 1) (\<lambda>path.
     and_then (at parts 2) (\<lambda>method. and_then (at parts 3) (\<lambda>query.
     and_then (at parts 4) (\<lambda>sourceIP. and_then (at parts 5) (\<lambda>sourcePortStr.
     and_then (at parts 6) (\<lambda>destIP. and_then (at parts 7) (\<lambda>destPortStr.
     and_then (at parts 8) (\<lambda>protocol. and_then (at parts 9) (\<lambda>responseStatusCode.
     and_then (at parts 10) (\<lambda>reqTimeStr. and_then (at parts 11) (\<lambda>respTimeStr.
       Inr [scheme, path, method, query, sourceIP, sourcePortStr, destIP, destPortStr,
            protocol, responseStatusCode, reqTimeStr, respTimeStr]))))))))))))"

text \<open>
  \<open>parseF5LogLine\<close>: the event (or nil) and what was logged, or a panic. The field
  list that the too-few-fields message prints is left out of the logged text.
\<close>

definition parseF5LogLine ::
  "SugaredLogger option \<Rightarrow> string \<Rightarrow> panic + (APIEvent option \<times> string list)" where
  "parseF5LogLine lg line =
     (let start = Index line HSL_START;
          en = Index line HSL_END
      in if start < 0 \<or> en < 0 then
           and_then (zap_Error lg ''missing HSL_START or HSL_END'')
             (\<lambda>log. Inr (None, log))
         else
           and_then (slice line (start + int (length HSL_START)) en) (\<lambda>between.
             let payload = TrimSpace between;
                 parts = Split payload '' ''
             in if length parts < 10 then
                  and_then (zap_Error lg ''too few fields: %v'') (\<lambda>log. Inr (None, log))
                else
                  and_then (fixedFields parts) (\<lambda>fixed.
                  and_then (buildEvent lg fixed parts) (\<lambda>(ev, log).
                    Inr (Some ev, log)))))"

text \<open>
  \<open>handleConn\<close> reads the connection line by line; an event that is not nil is sent on
  the ingestion channel (a send that waits for room, so it always happens). A panic
  ends the run.
\<close>

fun handleConn ::
  "SugaredLogger option \<Rightarrow> string list \<Rightarrow> APIEvent chan \<Rightarrow> panic + APIEvent chan" where
  "handleConn lg [] apiEventsChan = Inr apiEventsChan"
| "handleConn lg (line # lines) apiEventsChan =
     and_then (parseF5LogLine lg line) (\<lambda>(event, log).
       case event of
         None \<Rightarrow> handleConn lg lines apiEventsChan
       | Some ev \<Rightarrow> handleConn lg lines (send apiEventsChan ev))"

subsection \<open>The Pub/Sub receiver\<close>

text \<open>
  The callback that \<open>Start\<close> of \<open>gcp.go\<close> hands to \<open>sub.Receive\<close> (lines 90 to 93)
  and \<open>processMessage\<close>. \<open>json.Unmarshal\<close> is a parameter: \<open>None\<close> is its error.
  The clock, the decimal text of the status and the constant \<open>util.GCPAPIGateway\<close>
  (declared in a package that is not at hand) are parameters too.
\<close>

record HttpRequest =
  RequestMethod :: string
  RequestUrl :: string
  Status :: int
  UserAgent :: string
  RemoteIp :: string
  ServerIp :: string

record JsonPayload =
  ApiName :: string
  ApiMethod :: string
  Location :: string

record LogEntry =
  ResourceLabels :: "string \<rightharpoonup> string"
  HttpRequest :: HttpRequest
  JsonPayload :: JsonPayload

datatype ack = Pending | Acked

record message =
  Data :: string
  ackState :: ack

definition hostname_of :: "LogEntry \<Rightarrow> string" where
  "hostname_of entry =
     (case ResourceLabels entry ''service'' of
        Some service \<Rightarrow>
          if service \<noteq> [] then service
          else if ApiName (JsonPayload entry) \<noteq> [] then ApiName (JsonPayload entry)
          else ''gcp-api-gateway''
      | None \<Rightarrow>
          if ApiName (JsonPayload entry) \<noteq> [] then ApiName (JsonPayload entry)
          else ''gcp-api-gateway'')"

definition gcp_event ::
  "string \<Rightarrow> (int \<Rightarrow> string) \<Rightarrow> 64 word \<Rightarrow> LogEntry \<Rightarrow> APIEvent" where
  "gcp_event GCPAPIGateway sprint_d now entry =
     \<lparr>Metadata = \<lparr>ContextId = 0, Timestamp = now, MeshId = [], NodeName = [],
         ReceiverName = GCPAPIGateway, ReceiverVersion = []\<rparr>,
      Source = \<lparr>Name = [], Namespace = [], Ip = RemoteIp (HttpRequest entry), Port = 0\<rparr>,
      Destination = \<lparr>Name = ApiName (JsonPayload entry),
         Namespace = (if Location (JsonPayload entry) \<noteq> []
                      then Location (JsonPayload entry) else []),
         Ip = ServerIp (HttpRequest entry), Port = 0\<rparr>,
      Request = \<lparr>Headers =
           [''user-agent'' \<mapsto> UserAgent (HttpRequest entry),
            '':path'' \<mapsto> RequestUrl (HttpRequest entry),
            '':authority'' \<mapsto> hostname_of entry,
            '':method'' \<mapsto> RequestMethod (HttpRequest entry)],
         Body = []\<rparr>,
      Response = \<lparr>RHeaders = ['':status'' \<mapsto> sprint_d (Status (HttpRequest entry))],
         RBody = [], BackendLatencyInNanos = 0\<rparr>,
      Protocol = ''HTTP''\<rparr>"

definition processMessage ::
  "(string \<Rightarrow> LogEntry option) \<Rightarrow> string \<Rightarrow> (int \<Rightarrow> string) \<Rightarrow> 64 word \<Rightarrow>
     message \<Rightarrow> APIEvent chan \<Rightarrow> APIEvent chan \<times> string list" where
  "processMessage unmarshal name sprint_d now msg apiEvents =
     (case unmarshal (Data msg) of
        None \<Rightarrow> (apiEvents, [''Failed to unmarshal GCP log entry: %v''])
      | Some entry \<Rightarrow>
          (send apiEvents (gcp_event name sprint_d now entry),
           [''Received GCP event: %s %s (Host: %s)'']))"

definition receive_callback ::
  "(string \<Rightarrow> LogEntry option) \<Rightarrow> string \<Rightarrow> (int \<Rightarrow> string) \<Rightarrow> 64 word \<Rightarrow>
     message \<Rightarrow> APIEvent chan \<Rightarrow> message \<times> APIEvent chan \<times> string list" where
  "receive_callback unmarshal name sprint_d now msg apiEvents =
     (let (apiEvents', log) = processMessage unmarshal name sprint_d now msg apiEvents
      in (msg\<lparr>ackState := Acked\<rparr>, apiEvents', log))"

subsection \<open>The HTTP exporter's client\<close>

text \<open>
  \<open>buildHTTPClient\<close> of the HTTP exporter. The two reads of the file system,
  \<open>os.ReadFile\<close> and \<open>tls.LoadX509KeyPair\<close>, are parameters; \<open>None\<close> is their error.
  A certificate pool is the list of the PEM texts appended to it.
\<close>

record WebhookTLSConfig =
  InsecureSkipVerify :: bool
  CACertPath :: string
  ClientCertPath :: string
  ClientKeyPath :: string

record WebhookConfig =
  wh_Name :: string
  wh_URL :: string
  wh_Method :: string
  wh_Headers :: "(string \<times> string) list"
  wh_TLS :: "WebhookTLSConfig option"

record HttpConfig =
  Enabled :: bool
  TimeoutSeconds :: "32 word"
  Webhooks :: "WebhookConfig list"

record tls_Config =
  MinVersion :: "16 word"
  RootCAs :: "string list option"
  Certificates :: "(string \<times> string) list"
  tls_InsecureSkipVerify :: bool

record Transport =
  TLSHandshakeTimeout :: int
  TLSClientConfig :: "tls_Config option"

record Client =
  Timeout :: int
  Transport :: Transport

datatype load_error = ReadFileError string | LoadX509KeyPairError string string

definition VersionTLS12 :: "16 word" where
  "VersionTLS12 = 0x0303"

definition Second :: int where
  "Second = 1000000000"

definition ToLower :: "string \<Rightarrow> string" where
  "ToLower s =
     map (\<lambda>c. if 65 \<le> (of_char c :: int) \<and> (of_char c :: int) \<le> 90
               then char_of ((of_char c :: int) + 32) else c) s"

definition HasPrefix :: "string \<Rightarrow> string \<Rightarrow> bool" where
  "HasPrefix s p = prefix p s"

text \<open>One iteration of the loop over the webhooks, lines 402 to 439, for a TLS block.\<close>

definition apply_tls ::
  "(string \<Rightarrow> string option) \<Rightarrow> (string \<Rightarrow> string \<Rightarrow> (string \<times> string) option) \<Rightarrow>
     WebhookTLSConfig \<Rightarrow> tls_Config option \<Rightarrow> load_error + tls_Config" where
  "apply_tls readFile loadX509KeyPair t tlsConfig =
     (let c0 = (case tlsConfig of
                  None \<Rightarrow> \<lparr>MinVersion = VersionTLS12, RootCAs = None, Certificates = [],
                             tls_InsecureSkipVerify = False\<rparr>
                | Some c \<Rightarrow> c)
      in case (if CACertPath t \<noteq> []
               then (case readFile (CACertPath t) of
                       None \<Rightarrow> Inl (ReadFileError (CACertPath t))
                     | Some caCert \<Rightarrow> Inr (c0\<lparr>RootCAs := Some [caCert]\<rparr>))
               else Inr c0) of
           Inl e \<Rightarrow> Inl e
         | Inr c1 \<Rightarrow>
            (case (if ClientCertPath t \<noteq> [] \<and> ClientKeyPath t \<noteq> []
                   then (case loadX509KeyPair (ClientCertPath t) (ClientKeyPath t) of
                           None \<Rightarrow> Inl (LoadX509KeyPairError (ClientCertPath t) (ClientKeyPath t))
                         | Some cert \<Rightarrow> Inr (c1\<lparr>Certificates := [cert]\<rparr>))
                   else Inr c1) of
               Inl e \<Rightarrow> Inl e
             | Inr c2 \<Rightarrow>
                Inr (if InsecureSkipVerify t then c2\<lparr>tls_InsecureSkipVerify := True\<rparr>
                     else c2)))"

fun tls_loop ::
  "(string \<Rightarrow> string option) \<Rightarrow> (string \<Rightarrow> string \<Rightarrow> (string \<times> string) option) \<Rightarrow>
     WebhookConfig list \<Rightarrow> tls_Config option \<Rightarrow> load_error + tls_Config option" where
  "tls_loop readFile loadX509KeyPair [] tlsConfig = Inr tlsConfig"
| "tls_loop readFile loadX509KeyPair (wh # whs) tlsConfig =
     (if \<not> HasPrefix (ToLower (wh_URL wh)) ''https://''
      then tls_loop readFile loadX509KeyPair whs tlsConfig
      else case wh_TLS wh of
        None \<Rightarrow> tls_loop readFile loadX509KeyPair whs tlsConfig
      | Some t \<Rightarrow>
         (case apply_tls readFile loadX509KeyPair t tlsConfig of
            Inl e \<Rightarrow> Inl e
          | Inr c \<Rightarrow> tls_loop readFile loadX509KeyPair whs (Some c)))"

definition buildHTTPClient ::
  "(string \<Rightarrow> string option) \<Rightarrow> (string \<Rightarrow> string \<Rightarrow> (string \<times> string) option) \<Rightarrow>
     HttpConfig \<Rightarrow> load_error + Client" where
  "buildHTTPClient readFile loadX509KeyPair cfg =
     (let timeout = uint (TimeoutSeconds cfg) * Second
      in case tls_loop readFile loadX509KeyPair (Webhooks cfg) None of
           Inl e \<Rightarrow> Inl e
         | Inr tlsConfig \<Rightarrow>
             Inr \<lparr>Timeout = timeout,
                  Transport = \<lparr>TLSHandshakeTimeout = 10 * Second,
                                TLSClientConfig = tlsConfig\<rparr>\<rparr>)"

subsection \<open>The mesh-extension reconciler\<close>

text \<open>
  Modelled from the spec: \<open>createWasmPlugin\<close> and \<open>deleteWasmPlugin\<close> of the Istio
  gateway receiver are not among the files at hand; only their tests are
  (\<open>Test_createWasmPlugin\<close>, \<open>Test_deleteWasmPlugin\<close>). The model follows the
  specification: on create, "already exists" is treated as success, and the resource is
  neither applied again nor compared; on delete, absence is reported as an error to
  the caller. The cluster is the list of the resources it holds; the client's
  \<open>Create\<close> refuses a resource whose name and namespace are taken, and its \<open>Delete\<close>
  fails when there is none, with the text that the test expects.
\<close>

record WasmPlugin =
  wp_Name :: string
  wp_Namespace :: string
  wp_Url :: string
  wp_MatchLabels :: "(string \<times> string) list"
  wp_PluginConfig :: "(string \<times> string) list"
  wp_Priority :: "32 word"
  wp_FailOpen :: bool

datatype k8s_error = AlreadyExists string | NotFound string

definition FilterName :: string where
  "FilterName = ''http-filter-gateway''"

definition same_key :: "string \<Rightarrow> string \<Rightarrow> WasmPlugin \<Rightarrow> bool" where
  "same_key ns name r = (wp_Namespace r = ns \<and> wp_Name r = name)"

definition client_Get :: "WasmPlugin list \<Rightarrow> string \<Rightarrow> string \<Rightarrow> WasmPlugin list" where
  "client_Get cluster ns name = filter (same_key ns name) cluster"

definition client_Create :: "WasmPlugin list \<Rightarrow> WasmPlugin \<Rightarrow> k8s_error + WasmPlugin list" where
  "client_Create cluster r =
     (if client_Get cluster (wp_Namespace r) (wp_Name r) \<noteq> []
      then Inl (AlreadyExists (wp_Name r))
      else Inr (cluster @ [r]))"

definition client_Delete ::
  "WasmPlugin list \<Rightarrow> string \<Rightarrow> string \<Rightarrow> k8s_error + WasmPlugin list" where
  "client_Delete cluster ns name =
     (if client_Get cluster ns name = []
      then Inl (NotFound name)
      else Inr (filter (\<lambda>r. \<not> same_key ns name r) cluster))"

definition error_text :: "k8s_error \<Rightarrow> string" where
  "error_text e =
     (case e of
        AlreadyExists n \<Rightarrow> ''wasmplugins.extensions.istio.io \"'' @ n @ ''\" already exists''
      | NotFound n \<Rightarrow> ''wasmplugins.extensions.istio.io \"'' @ n @ ''\" not found'')"

definition createWasmPlugin :: "WasmPlugin list \<Rightarrow> WasmPlugin \<Rightarrow> k8s_error + WasmPlugin list" where
  "createWasmPlugin cluster desired =
     (case client_Create cluster desired of
        Inl (AlreadyExists n) \<Rightarrow> Inr cluster
      | Inl e \<Rightarrow> Inl e
      | Inr cluster' \<Rightarrow> Inr cluster')"

definition deleteWasmPlugin :: "WasmPlugin list \<Rightarrow> string \<Rightarrow> k8s_error + WasmPlugin list" where
  "deleteWasmPlugin cluster istioRootNs = client_Delete cluster istioRootNs FilterName"

subsection \<open>The orchestrator\<close>

text \<open>
  The state that \<open>Manager.run\<close> of \<open>sentryflow.go\<close> works on: the three channels, the
  cluster client, the root scope, the scope of the receivers, and the tasks that run.
  A scope is a number; \<open>cancelled\<close> holds the scopes whose cancel function was called,
  \<open>nextScope\<close> is the next fresh one. Every receiver set that \<open>receiver.Init\<close> started
  is recorded with its scope and its configuration.
  \<open>k8s.NewClient\<close> and \<open>receiver.Init\<close> are parameters (\<open>None\<close> and \<open>False\<close> are their
  errors), and so are the two receiver names of package \<open>util\<close> that need the cluster.
\<close>

record nameAndNamespace =
  nn_Name :: string
  nn_Namespace :: string

record Config =
  ServiceMeshes :: "nameAndNamespace list"
  Others :: "nameAndNamespace list"

record ('e, 'c) Manager =
  ApiEvents :: "'e chan"
  GrpcEvents :: "'e chan"
  HttpEvents :: "'e chan"
  K8sClient :: "'c option"
  rootScope :: nat
  receiversCtx :: nat
  cancelled :: "nat list"
  nextScope :: nat
  fanoutTask :: bool
  grpcExporterTask :: bool
  httpExporterTask :: bool
  receiverSets :: "(nat \<times> Config) list"

datatype 'm loop_result = Continue 'm | Return 'm

definition areK8sReceivers :: "string \<Rightarrow> string \<Rightarrow> Config \<Rightarrow> bool" where
  "areK8sReceivers nginxInc kong cfg =
     (if 0 < length (ServiceMeshes cfg) then True
      else list_ex (\<lambda>other. nn_Name other = nginxInc \<or> nn_Name other = kong) (Others cfg))"

definition setupSignalHandler :: "('e, 'c) Manager \<Rightarrow> nat \<times> ('e, 'c) Manager" where
  "setupSignalHandler m = (nextScope m, m\<lparr>nextScope := Suc (nextScope m)\<rparr>)"

text \<open>The branch \<open>case updatedConfig := <-m.configChan\<close> of the loop, lines 141 to 155.\<close>

definition on_config_change ::
  "string \<Rightarrow> string \<Rightarrow> 'c option \<Rightarrow> (nat \<Rightarrow> 'c option \<Rightarrow> Config \<Rightarrow> bool) \<Rightarrow>
     ('e, 'c) Manager \<Rightarrow> Config \<Rightarrow> ('e, 'c) Manager loop_result" where
  "on_config_change nginxInc kong newClient receiver_Init m updatedConfig =
     (let m1 = m\<lparr>cancelled := receiversCtx m # cancelled m\<rparr>
      in if areK8sReceivers nginxInc kong updatedConfig \<and> newClient = None then Return m1
         else
           let m2 = (if areK8sReceivers nginxInc kong updatedConfig
                     then m1\<lparr>K8sClient := newClient\<rparr> else m1);
               (ctx, m3) = setupSignalHandler m2;
               m4 = m3\<lparr>receiversCtx := ctx\<rparr>
           in if receiver_Init ctx (K8sClient m4) updatedConfig
              then Continue (m4\<lparr>receiverSets := (ctx, updatedConfig) # receiverSets m4\<rparr>)
              else Return m4)"

subsection \<open>Example states\<close>

definition fan_example :: "nat fanout" where
  "fan_example =
     \<lparr>stats = \<lparr>inCount = 5, grpcDrop = 0, httpDrop = 2\<rparr>,
      grpcOut = \<lparr>buf = [1, 2], cap = 3\<rparr>,
      httpOut = \<lparr>buf = [3, 4], cap = 2\<rparr>, stopped = False\<rparr>"

definition state_of :: "'m loop_result \<Rightarrow> 'm" where
  "state_of r = (case r of Continue m \<Rightarrow> m | Return m \<Rightarrow> m)"

definition mgr_example :: "(nat, string) Manager" where
  "mgr_example =
     \<lparr>ApiEvents = \<lparr>buf = [1], cap = 10240\<rparr>,
      GrpcEvents = \<lparr>buf = [2], cap = 10240\<rparr>,
      HttpEvents = \<lparr>buf = [3], cap = 10240\<rparr>,
      K8sClient = None, rootScope = 0, receiversCtx = 1, cancelled = [],
      nextScope = 2, fanoutTask = True, grpcExporterTask = True,
      httpExporterTask = True,
      receiverSets = [(1, \<lparr>ServiceMeshes = [], Others = [\<lparr>nn_Name = ''A'', nn_Namespace = []\<rparr>]\<rparr>)]\<rparr>"

definition cfg_example :: Config where
  "cfg_example = \<lparr>ServiceMeshes = [], Others = [\<lparr>nn_Name = ''B'', nn_Namespace = []\<rparr>]\<rparr>"

definition plugin_example :: WasmPlugin where
  "plugin_example =
     \<lparr>wp_Name = FilterName, wp_Namespace = ''istio-system'',
      wp_Url = ''docker.io/accuknox/sentryflow-httpfilter:latest'',
      wp_MatchLabels = [(''istio'', ''ingressgateway'')],
      wp_PluginConfig = [(''upstream_name'', ''sentryflow''), (''authority'', ''sentryflow''),
         (''api_path'', ''/api/v1/events'')],
      wp_Priority = 100, wp_FailOpen = True\<rparr>"

subsection \<open>Observations on the outcome of a parse, and example lines\<close>

definition panic_of :: "panic + 'a \<Rightarrow> panic option" where
  "panic_of r = (case r of Inl p \<Rightarrow> Some p | Inr _ \<Rightarrow> None)"

definition event_of :: "panic + (APIEvent option \<times> string list) \<Rightarrow> APIEvent option" where
  "event_of r = (case r of Inl p \<Rightarrow> None | Inr (ev, log) \<Rightarrow> ev)"

definition log_of :: "panic + ('a \<times> string list) \<Rightarrow> string list" where
  "log_of r = (case r of Inl p \<Rightarrow> [] | Inr (x, log) \<Rightarrow> log)"

definition dropped :: "panic + (APIEvent option \<times> string list) \<Rightarrow> bool" where
  "dropped r = (case r of Inl p \<Rightarrow> False | Inr (ev, log) \<Rightarrow> ev = None)"

definition line_no_sentinel :: string where
  "line_no_sentinel = ''<134>Oct 11 22:14:15 bigip1 GET /index.html HTTP/1.1 200''"

definition line_only_start :: string where
  "line_only_start =
     HSL_START @ '' https /a GET q 10.0.0.1 51234 10.0.0.2 443 HTTP/1.1 200 1000 1050''"

definition line_9_fields :: string where
  "line_9_fields =
     HSL_START @ '' https /a GET q 10.0.0.1 51234 10.0.0.2 443 HTTP/1.1 '' @ HSL_END"

definition line_10_fields :: string where
  "line_10_fields =
     HSL_START @ '' https /a GET q 10.0.0.1 51234 10.0.0.2 443 HTTP/1.1 200 '' @ HSL_END"

definition line_11_fields :: string where
  "line_11_fields =
     HSL_START @ '' https /a GET q 10.0.0.1 51234 10.0.0.2 443 HTTP/1.1 200 1000 '' @ HSL_END"

text \<open>
  The text between the sentinels after trimming, and its split on spaces, as
  \<open>parseF5LogLine\<close> computes them (lines 80 and 81) when both sentinels are found in
  order; the request and response times are parsed from parts 10 and 11.
\<close>

definition payload_of :: "string \<Rightarrow> string" where
  "payload_of line =
     (case slice line (Index line HSL_START + int (length HSL_START)) (Index line HSL_END) of
        Inl p \<Rightarrow> []
      | Inr between \<Rightarrow> TrimSpace between)"

definition parts_of :: "string \<Rightarrow> string list" where
  "parts_of line = Split (payload_of line) '' ''"

definition reqTime_of :: "string \<Rightarrow> 64 word" where
  "reqTime_of line = fst (ParseInt (parts_of line ! 10))"

definition respTime_of :: "string \<Rightarrow> 64 word" where
  "respTime_of line = fst (ParseInt (parts_of line ! 11))"

text \<open>
  A decimal field is an optional sign followed by digits, at least one. The digit run
  of a field is the number of digits that follow its sign before any other byte.
\<close>

definition unsigned_part :: "string \<Rightarrow> string" where
  "unsigned_part s =
     (if s \<noteq> [] \<and> (hd s = CHR ''+'' \<or> hd s = CHR ''-'') then tl s else s)"

definition decimal :: "string \<Rightarrow> bool" where
  "decimal s = (unsigned_part s \<noteq> [] \<and> list_all isDigit (unsigned_part s))"

definition digit_run :: "string \<Rightarrow> nat" where
  "digit_run s = length (takeWhile isDigit (unsigned_part s))"

definition produced :: "panic + (APIEvent option \<times> string list) \<Rightarrow> bool" where
  "produced r = (case r of Inl p \<Rightarrow> False | Inr (ev, log) \<Rightarrow> ev \<noteq> None)"

definition latency_of :: "panic + (APIEvent option \<times> string list) \<Rightarrow> 64 word option" where
  "latency_of r = map_option (\<lambda>ev. BackendLatencyInNanos (Response ev)) (event_of r)"

definition timestamp_of :: "panic + (APIEvent option \<times> string list) \<Rightarrow> 64 word option" where
  "timestamp_of r = map_option (\<lambda>ev. Timestamp (Metadata ev)) (event_of r)"

definition ports_of ::
  "panic + (APIEvent option \<times> string list) \<Rightarrow> (32 word \<times> 32 word) option" where
  "ports_of r = map_option (\<lambda>ev. (Port (Source ev), Port (Destination ev))) (event_of r)"

definition line_ok :: string where
  "line_ok =
     HSL_START @ '' https /a GET q 10.0.0.1 51234 10.0.0.2 443 HTTP/1.1 200 1000 1050 ''
       @ HSL_END"

definition line_backwards :: string where
  "line_backwards =
     HSL_START @ '' https /a GET q 10.0.0.1 51234 10.0.0.2 443 HTTP/1.1 200 1050 1000 ''
       @ HSL_END"

definition line_not_numeric :: string where
  "line_not_numeric =
     HSL_START @ '' https /a GET q 10.0.0.1 http 10.0.0.2 4x3 HTTP/1.1 200 - 10:50 ''
       @ HSL_END"

definition line_digits_then_letter :: string where
  "line_digits_then_letter =
     HSL_START
       @ '' https /a GET q 10.0.0.1 51234 10.0.0.2 443 HTTP/1.1 200 99999999999999999999x 1050 ''
       @ HSL_END"

text \<open>
  What the loop of \<open>buildHTTPClient\<close> amounts to. The TLS policies that count are the
  TLS blocks of the webhooks whose URL starts with \<open>https://\<close>, in the order of the
  configuration. Of the CA paths and of the certificate and key pairs that they
  supply, the last one is in force; verification is skipped when any of them asks
  for it.
\<close>

definition tls_policies :: "WebhookConfig list \<Rightarrow> WebhookTLSConfig list" where
  "tls_policies whs =
     map (\<lambda>wh. the (wh_TLS wh))
       (filter (\<lambda>wh. HasPrefix (ToLower (wh_URL wh)) ''https://'' \<and> wh_TLS wh \<noteq> None) whs)"

definition ca_paths :: "WebhookTLSConfig list \<Rightarrow> string list" where
  "ca_paths ts = filter (\<lambda>p. p \<noteq> []) (map CACertPath ts)"

definition key_pairs :: "WebhookTLSConfig list \<Rightarrow> (string \<times> string) list" where
  "key_pairs ts =
     filter (\<lambda>(c, k). c \<noteq> [] \<and> k \<noteq> []) (map (\<lambda>t. (ClientCertPath t, ClientKeyPath t)) ts)"

definition merge_tls ::
  "(string \<Rightarrow> string option) \<Rightarrow> (string \<Rightarrow> string \<Rightarrow> (string \<times> string) option) \<Rightarrow>
     tls_Config \<Rightarrow> WebhookTLSConfig list \<Rightarrow> tls_Config" where
  "merge_tls readFile loadX509KeyPair c ts =
     \<lparr>MinVersion = MinVersion c,
      RootCAs = (if ca_paths ts = [] then RootCAs c
                 else Some [the (readFile (last (ca_paths ts)))]),
      Certificates = (if key_pairs ts = [] then Certificates c
                      else [the (loadX509KeyPair (fst (last (key_pairs ts)))
                                   (snd (last (key_pairs ts))))]),
      tls_InsecureSkipVerify = (tls_InsecureSkipVerify c \<or> list_ex InsecureSkipVerify ts)\<rparr>"

definition fresh_tls :: tls_Config where
  "fresh_tls = \<lparr>MinVersion = VersionTLS12, RootCAs = None, Certificates = [],
                 tls_InsecureSkipVerify = False\<rparr>"

definition files_example :: "string \<Rightarrow> string option" where
  "files_example p =
     (if p = ''/etc/ca-a.pem'' then Some ''CERT-A''
      else if p = ''/etc/ca-b.pem'' then Some ''CERT-B'' else None)"

definition pairs_example :: "string \<Rightarrow> string \<Rightarrow> (string \<times> string) option" where
  "pairs_example c k = (if c = ''/etc/client.crt'' \<and> k = ''/etc/client.key''
                        then Some (''CLIENT-CERT'', ''CLIENT-KEY'') else None)"

definition webhook_a :: WebhookConfig where
  "webhook_a = \<lparr>wh_Name = ''a'', wh_URL = ''https://a.example.com/hook'', wh_Method = ''POST'',
     wh_Headers = [],
     wh_TLS = Some \<lparr>InsecureSkipVerify = False, CACertPath = ''/etc/ca-a.pem'',
                     ClientCertPath = [], ClientKeyPath = []\<rparr>\<rparr>"

definition webhook_b :: WebhookConfig where
  "webhook_b = \<lparr>wh_Name = ''b'', wh_URL = ''HTTPS://b.example.com/hook'', wh_Method = ''POST'',
     wh_Headers = [],
     wh_TLS = Some \<lparr>InsecureSkipVerify = True, CACertPath = ''/etc/ca-b.pem'',
                     ClientCertPath = ''/etc/client.crt'', ClientKeyPath = ''/etc/client.key''\<rparr>\<rparr>"

definition webhook_plain :: WebhookConfig where
  "webhook_plain = \<lparr>wh_Name = ''plain'', wh_URL = ''http://c.example.com/hook'',
     wh_Method = ''POST'', wh_Headers = [],
     wh_TLS = Some \<lparr>InsecureSkipVerify = True, CACertPath = ''/etc/ca-a.pem'',
                     ClientCertPath = [], ClientKeyPath = []\<rparr>\<rparr>"

definition webhook_public :: WebhookConfig where
  "webhook_public = \<lparr>wh_Name = ''public'', wh_URL = ''https://example.com'',
     wh_Method = ''POST'', wh_Headers = [], wh_TLS = None\<rparr>"

definition http_config :: "WebhookConfig list \<Rightarrow> HttpConfig" where
  "http_config whs = \<lparr>Enabled = True, TimeoutSeconds = 5, Webhooks = whs\<rparr>"

subsection \<open>Well-formed lines\<close>

text \<open>
  The line protocol as the specification words it. Between the start and the end
  sentinel stand twelve positional fields, separated by single spaces: scheme, path,
  method, query, source IP, source port, destination IP, destination port, protocol,
  status code, request time and response time. They are followed by the request
  headers between \<open>REQHS\<close> and \<open>REQHE\<close>, the response headers between \<open>RESPHS\<close> and
  \<open>RESPHE\<close>, and the two payloads. The entries of a header section are separated by
  \<open>HEAN\<close>, and the key and the value of an entry by \<open>HEAV\<close>. Ports are written in
  decimal.
\<close>

function decimal_text :: "int \<Rightarrow> string" where
  "decimal_text n =
     (if n < 10 then [char_of (48 + n)]
      else decimal_text (n div 10) @ [char_of (48 + n mod 10)])"
  by pat_completeness auto
termination
  by (relation "measure nat") auto

declare decimal_text.simps [simp del]

record encoded =
  e_prefix :: string
  e_scheme :: string
  e_path :: string
  e_method :: string
  e_query :: string
  e_sourceIP :: string
  e_sourcePort :: int
  e_destIP :: string
  e_destPort :: int
  e_protocol :: string
  e_status :: string
  e_reqTime :: string
  e_respTime :: string
  e_reqHeaders :: "(string \<times> string) list"
  e_gap :: string
  e_respHeaders :: "(string \<times> string) list"
  e_payloads :: string
  e_suffix :: string

definition positional :: "encoded \<Rightarrow> string list" where
  "positional L =
     [e_scheme L, e_path L, e_method L, e_query L, e_sourceIP L,
      decimal_text (e_sourcePort L), e_destIP L, decimal_text (e_destPort L),
      e_protocol L, e_status L, e_reqTime L, e_respTime L]"

definition encode_entry :: "string \<times> string \<Rightarrow> string" where
  "encode_entry kv = fst kv @ HEAV @ snd kv"

definition encode_headers :: "(string \<times> string) list \<Rightarrow> string" where
  "encode_headers hs = Join (map encode_entry hs) HEAN"

definition sections :: "encoded \<Rightarrow> string" where
  "sections L =
     REQHS @ encode_headers (e_reqHeaders L) @ REQHE @ e_gap L @
     RESPHS @ encode_headers (e_respHeaders L) @ RESPHE @ e_payloads L"

definition between :: "encoded \<Rightarrow> string" where
  "between L = '' '' @ concat (map (\<lambda>f. f @ '' '') (positional L)) @ sections L @ '' ''"

definition encode_line :: "encoded \<Rightarrow> string" where
  "encode_line L = e_prefix L @ HSL_START @ between L @ HSL_END @ e_suffix L"

text \<open>
  A line is well formed when every token stands where the grammar puts it and nowhere
  before: the start sentinel does not occur in the prefix, the end sentinel does not
  occur before its place, no positional field holds a space, the first field does not
  start with white space, a header section does not hold its own end token, an entry
  does not hold the entry separator, a key does not hold the value separator, and
  the response payload is proper base64. Ports are port numbers.
\<close>

definition entry_ok :: "string \<times> string \<Rightarrow> bool" where
  "entry_ok kv =
     (\<not> Contains (fst kv @ butlast HEAV) HEAV \<and>
      \<not> Contains (encode_entry kv @ butlast HEAN) HEAN)"

definition headers_ok :: "string \<Rightarrow> (string \<times> string) list \<Rightarrow> bool" where
  "headers_ok endTag hs =
     (\<not> Contains (encode_headers hs @ butlast endTag) endTag \<and> list_all entry_ok hs)"

definition payload_ok :: "string \<Rightarrow> bool" where
  "payload_ok rest =
     (let idx = Index rest REQPE
      in idx < 0 \<or> \<not> snd (DecodeString (TrimSpace (drop (nat idx + length REQPE) rest))))"

definition wellformed :: "encoded \<Rightarrow> bool" where
  "wellformed L =
     (\<not> Contains (e_prefix L @ butlast HSL_START) HSL_START \<and>
      \<not> Contains (e_prefix L @ HSL_START @ between L @ butlast HSL_END) HSL_END \<and>
      list_all (\<lambda>f. CHR '' '' \<notin> set f) (positional L) \<and>
      e_scheme L \<noteq> [] \<and> \<not> isSpace (hd (e_scheme L)) \<and>
      0 \<le> e_sourcePort L \<and> e_sourcePort L < 65536 \<and>
      0 \<le> e_destPort L \<and> e_destPort L < 65536 \<and>
      headers_ok REQHE (e_reqHeaders L) \<and>
      \<not> Contains (e_gap L @ butlast RESPHS) RESPHS \<and>
      headers_ok RESPHE (e_respHeaders L) \<and>
      (e_payloads L = [] \<or> \<not> isSpace (last (e_payloads L))) \<and>
      payload_ok (e_payloads L))"

text \<open>
  The header map that a list of entries stands for: keys and values are trimmed of
  white space and then of underscores, and a later entry replaces an earlier one with
  the same key.
\<close>

definition pad_trim :: "string \<Rightarrow> string" where
  "pad_trim s = Trim (TrimSpace s) ''_''"

definition put_header :: "headers \<Rightarrow> string \<times> string \<Rightarrow> headers" where
  "put_header m kv = m(pad_trim (fst kv) \<mapsto> pad_trim (snd kv))"

definition header_map :: "(string \<times> string) list \<Rightarrow> headers" where
  "header_map hs = foldl put_header Map.empty hs"

definition encoded_example :: encoded where
  "encoded_example =
     \<lparr>e_prefix = ''<134>Oct 11 22:14:15 bigip1 '',
      e_scheme = ''https'', e_path = ''/api/v1/users'', e_method = ''GET'',
      e_query = ''page=2'', e_sourceIP = ''10.0.0.1'', e_sourcePort = 51234,
      e_destIP = ''10.0.0.2'', e_destPort = 443, e_protocol = ''HTTP/1.1'',
      e_status = ''200'', e_reqTime = ''1000'', e_respTime = ''1050'',
      e_reqHeaders = [(''Host'', ''example.com''), ('' User-Agent_'', ''_curl/8.0 '')],
      e_gap = '' '',
      e_respHeaders = [(''Content-Type'', ''text/plain'')],
      e_payloads = '' __REQPS__aGVsbG8=__REQPE__d29ybGQ='',
      e_suffix = []\<rparr>"

text \<open>
  The text that follows the twelve fixed fields, and what is left of it after the two
  header sections (lines 107 to 117): the text in which \<open>parseF5LogLine\<close> looks for
  the payloads.
\<close>

definition rest_of :: "string \<Rightarrow> string" where
  "rest_of line = Join (drop 12 (parts_of line)) '' ''"

definition payloads_of :: "string \<Rightarrow> string" where
  "payloads_of line =
     snd (extractHeaders (snd (extractHeaders (rest_of line) REQHS REQHE)) RESPHS RESPHE)"

(*DEFS_END*)

section \<open>Properties of the fan-out stage\<close>

lemma try_send_full: "full c \<Longrightarrow> try_send c x = None"
  by (simp add: try_send_def)

lemma try_send_room: "\<not> full c \<Longrightarrow> try_send c x = Some (send c x)"
  by (simp add: try_send_def)

text \<open>
  Claim C1. For an event taken from the ingestion queue, the fan-out stage counts it
  and tries both output queues, each on its own: a full queue is left as it is and its
  drop counter grows by exactly one; a queue with room receives the event at its end
  and its drop counter stays. What happens to one output does not depend on the other.
\<close>

theorem fanOut_independent:
  fixes f :: "'a fanout"
  shows "let f' = fanOut_step f (InRecv ev) in
     inCount (stats f') = inCount (stats f) + 1 \<and>
     (full (grpcOut f) \<longrightarrow>
        grpcOut f' = grpcOut f \<and> grpcDrop (stats f') = grpcDrop (stats f) + 1) \<and>
     (\<not> full (grpcOut f) \<longrightarrow>
        grpcOut f' = send (grpcOut f) ev \<and> grpcDrop (stats f') = grpcDrop (stats f)) \<and>
     (full (httpOut f) \<longrightarrow>
        httpOut f' = httpOut f \<and> httpDrop (stats f') = httpDrop (stats f) + 1) \<and>
     (\<not> full (httpOut f) \<longrightarrow>
        httpOut f' = send (httpOut f) ev \<and> httpDrop (stats f') = httpDrop (stats f))"
proof (cases "full (grpcOut f)"; cases "full (httpOut f)")
qed (simp_all add: fanOut_event_def Let_def try_send_full try_send_room)

theorem fanOut_independent_witness:
  "full (httpOut fan_example) \<and> \<not> full (grpcOut fan_example) \<and>
   httpOut (fanOut_step fan_example (InRecv 9)) = httpOut fan_example \<and>
   httpDrop (stats (fanOut_step fan_example (InRecv 9))) = 3 \<and>
   buf (grpcOut (fanOut_step fan_example (InRecv 9))) = [1, 2, 9] \<and>
   grpcDrop (stats (fanOut_step fan_example (InRecv 9))) = 0 \<and>
   inCount (stats (fanOut_step fan_example (InRecv 9))) = 6"
proof -
  have h: "full (httpOut fan_example)" and g: "\<not> full (grpcOut fan_example)"
    by (simp_all add: fan_example_def full_def)
  from fanOut_independent [of fan_example 9] h g
  have "httpOut (fanOut_step fan_example (InRecv 9)) = httpOut fan_example"
    and "httpDrop (stats (fanOut_step fan_example (InRecv 9))) = httpDrop (stats fan_example) + 1"
    and "grpcOut (fanOut_step fan_example (InRecv 9)) = send (grpcOut fan_example) 9"
    and "grpcDrop (stats (fanOut_step fan_example (InRecv 9))) = grpcDrop (stats fan_example)"
    and "inCount (stats (fanOut_step fan_example (InRecv 9))) = inCount (stats fan_example) + 1"
    by (simp_all add: Let_def)
  with h g show ?thesis by (simp add: fan_example_def send_def)
qed

section \<open>Properties of the orchestrator\<close>

text \<open>
  Claim C8. The configuration-change branch of the orchestrator's loop cancels the
  scope of the current receivers and, when it goes on, starts the new receiver set
  under a fresh scope. Whether it goes on or returns, it leaves the ingestion queue,
  both output queues, the fan-out task, both exporter tasks and the root scope as
  they were.
\<close>

theorem config_change_frame:
  fixes m :: "('e, 'c) Manager"
  shows "let r = on_config_change nginxInc kong newClient receiver_Init m updatedConfig;
             m' = state_of r in
     ApiEvents m' = ApiEvents m \<and> GrpcEvents m' = GrpcEvents m \<and>
     HttpEvents m' = HttpEvents m \<and>
     fanoutTask m' = fanoutTask m \<and> grpcExporterTask m' = grpcExporterTask m \<and>
     httpExporterTask m' = httpExporterTask m \<and> rootScope m' = rootScope m \<and>
     cancelled m' = receiversCtx m # cancelled m \<and>
     (\<forall>x. r = Continue x \<longrightarrow>
        receiversCtx x = nextScope m \<and>
        receiverSets x = (nextScope m, updatedConfig) # receiverSets m)"
  by (simp add: on_config_change_def state_of_def setupSignalHandler_def Let_def
      split: prod.splits)

theorem config_change_frame_witness:
  "on_config_change ''nginx'' ''kong'' None (\<lambda>ctx c cfg. True) mgr_example cfg_example
     = Continue (mgr_example\<lparr>cancelled := [1], nextScope := 3, receiversCtx := 2,
          receiverSets := (2, cfg_example) # receiverSets mgr_example\<rparr>) \<and>
   receiversCtx (state_of (on_config_change ''nginx'' ''kong'' None (\<lambda>ctx c cfg. True)
      mgr_example cfg_example)) = nextScope mgr_example \<and>
   fanoutTask (state_of (on_config_change ''nginx'' ''kong'' None (\<lambda>ctx c cfg. True)
      mgr_example cfg_example))"
proof -
  have r: "on_config_change ''nginx'' ''kong'' None (\<lambda>ctx c cfg. True) mgr_example cfg_example
     = Continue (mgr_example\<lparr>cancelled := [1], nextScope := 3, receiversCtx := 2,
          receiverSets := (2, cfg_example) # receiverSets mgr_example\<rparr>)"
    by (simp add: on_config_change_def areK8sReceivers_def cfg_example_def mgr_example_def
        setupSignalHandler_def Let_def)
  from config_change_frame [of "''nginx''" "''kong''" None "\<lambda>ctx c cfg. True"
      mgr_example cfg_example] r
  have "receiversCtx (state_of (on_config_change ''nginx'' ''kong'' None (\<lambda>ctx c cfg. True)
      mgr_example cfg_example)) = nextScope mgr_example"
    and "fanoutTask (state_of (on_config_change ''nginx'' ''kong'' None (\<lambda>ctx c cfg. True)
      mgr_example cfg_example)) = fanoutTask mgr_example"
    by (simp_all add: Let_def state_of_def)
  with r show ?thesis by (simp add: mgr_example_def)
qed

section \<open>Properties of the Pub/Sub receiver\<close>

text \<open>
  Claim C9. Every message handed to the callback of the pull subscription is
  acknowledged when the callback ends, whether its payload could be decoded or not.
  For a payload that cannot be decoded, the failure is logged and the ingestion queue
  is left as it was; for one that can, the event is sent.
\<close>

theorem ack_regardless:
  "let (msg', apiEvents', log) = receive_callback unmarshal name sprint_d now msg apiEvents in
     ackState msg' = Acked \<and> Data msg' = Data msg \<and>
     (unmarshal (Data msg) = None \<longrightarrow>
        apiEvents' = apiEvents \<and> log = [''Failed to unmarshal GCP log entry: %v'']) \<and>
     (\<forall>entry. unmarshal (Data msg) = Some entry \<longrightarrow>
        apiEvents' = send apiEvents (gcp_event name sprint_d now entry))"
  by (simp add: receive_callback_def processMessage_def split: option.splits)

theorem ack_regardless_witness:
  "receive_callback (\<lambda>d. None) ''gcp'' (\<lambda>n. ''200'') 7 \<lparr>Data = ''{not json'', ackState = Pending\<rparr>
     (make_chan 10240 :: APIEvent chan)
   = (\<lparr>Data = ''{not json'', ackState = Acked\<rparr>, make_chan 10240,
      [''Failed to unmarshal GCP log entry: %v''])"
proof -
  obtain msg' ch' log where r: "receive_callback (\<lambda>d. None) ''gcp'' (\<lambda>n. ''200'') 7
     \<lparr>Data = ''{not json'', ackState = Pending\<rparr> (make_chan 10240 :: APIEvent chan) = (msg', ch', log)"
    by (cases "receive_callback (\<lambda>d. None) ''gcp'' (\<lambda>n. ''200'') 7
     \<lparr>Data = ''{not json'', ackState = Pending\<rparr> (make_chan 10240 :: APIEvent chan)") auto
  from ack_regardless [of "\<lambda>d. None" "''gcp''" "\<lambda>n. ''200''" 7
      "\<lparr>Data = ''{not json'', ackState = Pending\<rparr>" "make_chan 10240 :: APIEvent chan"] r
  have "ackState msg' = Acked" "Data msg' = ''{not json''" "ch' = make_chan 10240"
    "log = [''Failed to unmarshal GCP log entry: %v'']"
    by simp_all
  then have "msg' = \<lparr>Data = ''{not json'', ackState = Acked\<rparr>" by (cases msg') simp
  with r \<open>ch' = make_chan 10240\<close> \<open>log = [''Failed to unmarshal GCP log entry: %v'']\<close>
  show ?thesis by simp
qed

section \<open>Properties of the mesh-extension reconciler\<close>

text \<open>
  Claim C7. Creating the extension resource when it already exists returns no error
  and leaves the cluster, with its one such resource, as it was; creating twice gives
  what creating once gives. Deleting the resource when it is absent returns the
  "not found" error, with the same text every time.
\<close>

theorem reconciler_idempotent:
  "(client_Get cluster (wp_Namespace desired) (wp_Name desired) = [existing] \<longrightarrow>
      createWasmPlugin cluster desired = Inr cluster) \<and>
   (\<forall>c1. createWasmPlugin cluster desired = Inr c1 \<longrightarrow> createWasmPlugin c1 desired = Inr c1) \<and>
   (client_Get cluster ns FilterName = [] \<longrightarrow>
      deleteWasmPlugin cluster ns = Inl (NotFound FilterName) \<and>
      error_text (NotFound FilterName)
        = ''wasmplugins.extensions.istio.io \"http-filter-gateway\" not found'')"
proof (intro conjI allI impI)
  assume "client_Get cluster (wp_Namespace desired) (wp_Name desired) = [existing]"
  then show "createWasmPlugin cluster desired = Inr cluster"
    by (simp add: createWasmPlugin_def client_Create_def)
next
  fix c1
  assume c: "createWasmPlugin cluster desired = Inr c1"
  have "client_Get c1 (wp_Namespace desired) (wp_Name desired) \<noteq> []"
  proof (cases "client_Get cluster (wp_Namespace desired) (wp_Name desired) = []")
    case True
    with c have "c1 = cluster @ [desired]"
      by (simp add: createWasmPlugin_def client_Create_def)
    then show ?thesis by (simp add: client_Get_def same_key_def)
  next
    case False
    with c have "c1 = cluster" by (simp add: createWasmPlugin_def client_Create_def)
    with False show ?thesis by simp
  qed
  then show "createWasmPlugin c1 desired = Inr c1"
    by (simp add: createWasmPlugin_def client_Create_def)
next
  assume "client_Get cluster ns FilterName = []"
  then show "deleteWasmPlugin cluster ns = Inl (NotFound FilterName)"
    by (simp add: deleteWasmPlugin_def client_Delete_def)
next
  show "error_text (NotFound FilterName)
        = ''wasmplugins.extensions.istio.io \"http-filter-gateway\" not found''"
    by (simp add: error_text_def FilterName_def)
qed

theorem reconciler_idempotent_witness:
  "createWasmPlugin [] plugin_example = Inr [plugin_example] \<and>
   createWasmPlugin [plugin_example] plugin_example = Inr [plugin_example] \<and>
   client_Get [plugin_example] ''istio-system'' FilterName = [plugin_example] \<and>
   deleteWasmPlugin [] ''istio-system'' = Inl (NotFound FilterName)"
proof -
  have g: "client_Get [plugin_example] (wp_Namespace plugin_example) (wp_Name plugin_example)
      = [plugin_example]"
    by (simp add: client_Get_def same_key_def)
  have c0: "createWasmPlugin [] plugin_example = Inr [plugin_example]"
    by (simp add: createWasmPlugin_def client_Create_def client_Get_def)
  have e: "client_Get [] ''istio-system'' FilterName = []"
    by (simp add: client_Get_def)
  from reconciler_idempotent [of "[plugin_example]" plugin_example plugin_example] g
  have c1: "createWasmPlugin [plugin_example] plugin_example = Inr [plugin_example]"
    by simp
  from reconciler_idempotent [of "[]" plugin_example plugin_example "''istio-system''"] e c0
  have d: "deleteWasmPlugin [] ''istio-system'' = Inl (NotFound FilterName)"
    by simp
  from g have "client_Get [plugin_example] ''istio-system'' FilterName = [plugin_example]"
    by (simp add: plugin_example_def)
  with c0 c1 d show ?thesis by simp
qed

section \<open>Properties of the line parser\<close>

subsection \<open>Auxiliary facts\<close>

lemma and_then_Inl [simp]: "and_then (Inl p) f = Inl p"
  by (simp add: and_then_def)
lemma and_then_Inr [simp]: "and_then (Inr x) f = f x"
  by (simp add: and_then_def)

lemma IndexOpt_bound: "IndexOpt s t = Some i \<Longrightarrow> i + length t \<le> length s"
proof (induction s arbitrary: i)
  case Nil
  then show ?case by (simp split: if_splits)
next
  case (Cons c cs)
  show ?case
  proof (cases "prefix t (c # cs)")
    case True
    then have "length t \<le> length (c # cs)" by (rule prefix_length_le)
    with True Cons.prems show ?thesis by simp
  next
    case False
    with Cons.prems obtain j where "IndexOpt cs t = Some j" "i = Suc j" by auto
    with Cons.IH show ?thesis by fastforce
  qed
qed

lemma Index_bound: "Index s t + int (length t) \<le> int (length s) \<or> Index s t = - 1"
  by (auto simp: Index_def dest: IndexOpt_bound split: option.splits)

lemma Index_le_length: "Index s t \<le> int (length s)"
  using Index_bound [of s t] by auto

lemma at_in_range: "i < length xs \<Longrightarrow> at xs i = Inr (xs ! i)"
  by (simp add: at_def)

lemma at_out_of_range: "length xs \<le> i \<Longrightarrow> at xs i = Inl (IndexOutOfRange i (length xs))"
  by (simp add: at_def)

lemma take_12:
  assumes "12 \<le> length parts"
  shows "take 12 parts = [parts ! 0, parts ! 1, parts ! 2, parts ! 3, parts ! 4,
      parts ! 5, parts ! 6, parts ! 7, parts ! 8, parts ! 9, parts ! 10, parts ! 11]"
proof (rule nth_equalityI)
  show "length (take 12 parts) = length [parts ! 0, parts ! 1, parts ! 2, parts ! 3,
      parts ! 4, parts ! 5, parts ! 6, parts ! 7, parts ! 8, parts ! 9, parts ! 10, parts ! 11]"
    using assms by simp
next
  fix i
  assume "i < length (take 12 parts)"
  then have "i < 12" by simp
  then have "i = 0 \<or> i = 1 \<or> i = 2 \<or> i = 3 \<or> i = 4 \<or> i = 5 \<or> i = 6
    \<or> i = 7 \<or> i = 8 \<or> i = 9 \<or> i = 10 \<or> i = 11"
    by arith
  then show "take 12 parts ! i = [parts ! 0, parts ! 1, parts ! 2, parts ! 3, parts ! 4,
      parts ! 5, parts ! 6, parts ! 7, parts ! 8, parts ! 9, parts ! 10, parts ! 11] ! i"
    by (elim disjE) simp_all
qed

lemma fixedFields_12:
  assumes "12 \<le> length parts"
  shows "fixedFields parts = Inr (take 12 parts)"
proof -
  from assms have "parts \<noteq> []" by auto
  with assms show ?thesis by (simp add: fixedFields_def at_def take_12)
qed

lemma fixedFields_10:
  assumes "length parts = 10"
  shows "fixedFields parts = Inl (IndexOutOfRange 10 10)"
  using assms by (simp add: fixedFields_def at_def)

lemma fixedFields_11:
  assumes "length parts = 11"
  shows "fixedFields parts = Inl (IndexOutOfRange 11 11)"
  using assms by (simp add: fixedFields_def at_def)

lemma fixedFields_short:
  assumes "10 \<le> length parts" "length parts < 12"
  shows "fixedFields parts = Inl (IndexOutOfRange (length parts) (length parts))"
proof -
  from assms have "length parts = 10 \<or> length parts = 11" by arith
  then show ?thesis by (auto simp: fixedFields_10 fixedFields_11)
qed

lemma parseF5LogLine_cases:
  "parseF5LogLine lg line =
     (if Index line HSL_START < 0 \<or> Index line HSL_END < 0 then
        and_then (zap_Error lg ''missing HSL_START or HSL_END'') (\<lambda>log. Inr (None, log))
      else if Index line HSL_END < Index line HSL_START + int (length HSL_START) then
        Inl (SliceBoundsOutOfRange (Index line HSL_START + int (length HSL_START))
               (Index line HSL_END))
      else if length (parts_of line) < 10 then
        and_then (zap_Error lg ''too few fields: %v'') (\<lambda>log. Inr (None, log))
      else if length (parts_of line) < 12 then
        Inl (IndexOutOfRange (length (parts_of line)) (length (parts_of line)))
      else
        and_then (buildEvent lg (take 12 (parts_of line)) (parts_of line))
          (\<lambda>(ev, log). Inr (Some ev, log)))"
proof -
  consider (missing) "Index line HSL_START < 0 \<or> Index line HSL_END < 0"
    | (order) "0 \<le> Index line HSL_START" "0 \<le> Index line HSL_END"
        "Index line HSL_END < Index line HSL_START + int (length HSL_START)"
    | (ok) "0 \<le> Index line HSL_START" "0 \<le> Index line HSL_END"
        "Index line HSL_START + int (length HSL_START) \<le> Index line HSL_END"
    by linarith
  then show ?thesis
  proof cases
    case missing
    then show ?thesis by (simp add: parseF5LogLine_def Let_def)
  next
    case order
    then show ?thesis by (simp add: parseF5LogLine_def Let_def slice_def)
  next
    case ok
    let ?lo = "Index line HSL_START + int (length HSL_START)"
    let ?hi = "Index line HSL_END"
    have sl: "slice line ?lo ?hi = Inr (take (nat ?hi - nat ?lo) (drop (nat ?lo) line))"
      using ok Index_le_length [of line HSL_END] by (simp add: slice_def)
    then have parts: "parts_of line
        = Split (TrimSpace (take (nat ?hi - nat ?lo) (drop (nat ?lo) line))) '' ''"
      by (simp add: parts_of_def payload_of_def)
    consider (few) "length (parts_of line) < 10"
      | (short) "10 \<le> length (parts_of line)" "length (parts_of line) < 12"
      | (full) "12 \<le> length (parts_of line)"
      by linarith
    then show ?thesis
    proof cases
      case few
      with ok sl parts show ?thesis
        by (simp add: parseF5LogLine_def Let_def)
    next
      case short
      with ok sl parts fixedFields_short [OF short] show ?thesis
        by (simp add: parseF5LogLine_def Let_def)
    next
      case full
      with ok sl parts fixedFields_12 [OF full] show ?thesis
        by (simp add: parseF5LogLine_def Let_def)
    qed
  qed
qed



lemma latency_mod:
  fixes r s :: "64 word"
  shows "uint ((s - r) * 1000000) = ((sint s - sint r) * 1000000) mod 2 ^ 64"
proof -
  have "(s - r) * 1000000 = (word_of_int ((sint s - sint r) * 1000000) :: 64 word)"
    by simp
  then have "uint ((s - r) * 1000000) = uint (word_of_int ((sint s - sint r) * 1000000) :: 64 word)"
    by simp
  also have "\<dots> = ((sint s - sint r) * 1000000) mod 2 ^ 64"
    by (subst uint_word_of_int) simp
  finally show ?thesis .
qed


lemma responsePayload_None:
  "responsePayload None rest = Inr (raw, log) \<Longrightarrow> log = []"
  by (auto simp: responsePayload_def Let_def zap_Error_def split: if_splits prod.splits)

lemma buildEvent_fields:
  assumes "buildEvent lg fixed parts = Inr (ev, log)"
  shows "BackendLatencyInNanos (Response ev)
           = (fst (ParseInt (fixed ! 11)) - fst (ParseInt (fixed ! 10))) * 1000000"
    and "Timestamp (Metadata ev) = fst (ParseInt (fixed ! 10))"
    and "Port (Source ev) = ucast (fst (Atoi (fixed ! 5)))"
    and "Port (Destination ev) = ucast (fst (Atoi (fixed ! 7)))"
    and "Ip (Source ev) = fixed ! 4"
    and "Ip (Destination ev) = fixed ! 6"
    and "Protocol ev = fixed ! 8"
  using assms
  by (auto simp: buildEvent_def Let_def and_then_def split: prod.splits sum.splits)

lemma parse_event:
  assumes "parseF5LogLine lg line = Inr (Some ev, log)"
  shows "12 \<le> length (parts_of line)"
    and "buildEvent lg (take 12 (parts_of line)) (parts_of line) = Inr (ev, log)"
proof -
  have no_drop: "and_then (zap_Error lg msg) (\<lambda>log. Inr (None, log)) \<noteq> Inr (Some ev, log)"
    for msg
    by (cases lg) (simp_all add: zap_Error_def)
  from assms no_drop show len: "12 \<le> length (parts_of line)"
    by (simp add: parseF5LogLine_cases split: if_splits)
  with assms no_drop
  have "and_then (buildEvent lg (take 12 (parts_of line)) (parts_of line))
          (\<lambda>(ev, log). Inr (Some ev, log)) = Inr (Some ev, log)"
    by (simp add: parseF5LogLine_cases split: if_splits)
  then show "buildEvent lg (take 12 (parts_of line)) (parts_of line) = Inr (ev, log)"
    by (cases "buildEvent lg (take 12 (parts_of line)) (parts_of line)") auto
qed

lemma parse_latency:
  assumes "parseF5LogLine lg line = Inr (Some ev, log)"
  shows "BackendLatencyInNanos (Response ev) = (respTime_of line - reqTime_of line) * 1000000"
  using parse_event [OF assms] buildEvent_fields(1) [of lg "take 12 (parts_of line)" "parts_of line" ev log]
  by (simp add: respTime_of_def reqTime_of_def)


lemma isDigit_digit: "isDigit c \<Longrightarrow> 0 \<le> digit c \<and> digit c \<le> 9"
  by (simp add: isDigit_def digit_def)

lemma ParseUint_loop_syntax:
  assumes "\<not> list_all isDigit ds" "0 \<le> n" "n < 10 ^ j"
    and "length (takeWhile isDigit ds) + j \<le> 19"
  shows "ParseUint_loop n ds = (0, Some ErrSyntax)"
  using assms
proof (induction ds arbitrary: n j)
  case Nil
  then show ?case by simp
next
  case (Cons c cs)
  show ?case
  proof (cases "isDigit c")
    case False
    then show ?thesis by simp
  next
    case True
    with Cons.prems have j: "j \<le> 18" and rest: "\<not> list_all isDigit cs"
      and run: "length (takeWhile isDigit cs) + Suc j \<le> 19"
      by simp_all
    from j have "(10::int) ^ j \<le> 10 ^ 18" by (intro power_increasing) simp_all
    with Cons.prems have n18: "n < 10 ^ 18" by linarith
    from isDigit_digit [OF True] have d: "0 \<le> digit c" "digit c \<le> 9" by simp_all
    from Cons.prems d have "n * 10 + digit c < 10 ^ j * 10" by linarith
    then have n1: "n * 10 + digit c < 10 ^ Suc j" by (simp add: mult.commute)
    from j have "(10::int) ^ Suc j \<le> 10 ^ 19" by (intro power_increasing) simp_all
    with n1 have n19: "n * 10 + digit c < 10 ^ 19" by linarith
    from Cons.prems d have pos: "0 \<le> n * 10 + digit c" by simp
    have "ParseUint_loop (n * 10 + digit c) cs = (0, Some ErrSyntax)"
      by (rule Cons.IH [OF rest pos n1 run])
    with True n18 n19 show ?thesis by (simp add: maxUint64_def Let_def)
  qed
qed

lemma ParseInt_not_decimal:
  assumes "\<not> decimal s" "digit_run s \<le> 19"
  shows "ParseInt s = (0, Some ErrSyntax)"
proof (cases "s = []")
  case True
  then show ?thesis by (simp add: ParseInt_def)
next
  case False
  let ?u = "unsigned_part s"
  have u: "?u = (if hd s = CHR ''+'' \<or> hd s = CHR ''-'' then tl s else s)"
    using False by (simp add: unsigned_part_def)
  have "ParseUint ?u = (0, Some ErrSyntax)"
  proof (cases "?u = []")
    case True
    then show ?thesis by (simp add: ParseUint_def)
  next
    case nonempty: False
    with assms(1) have a: "\<not> list_all isDigit ?u" by (simp add: decimal_def)
    from assms(2) have b: "length (takeWhile isDigit ?u) + 0 \<le> 19"
      by (simp add: digit_run_def)
    have "ParseUint_loop 0 ?u = (0, Some ErrSyntax)"
      by (rule ParseUint_loop_syntax [OF a _ _ b]) simp_all
    with nonempty show ?thesis by (simp add: ParseUint_def)
  qed
  with False u show ?thesis by (simp add: ParseInt_def Let_def)
qed

subsection \<open>Lines that are dropped, and lines that crash the receiver\<close>

lemma missing_sentinel:
  assumes "Index line HSL_START < 0 \<or> Index line HSL_END < 0"
  shows "parseF5LogLine lg line =
     (case lg of
        None \<Rightarrow> Inl NilPointerDereference
      | Some l \<Rightarrow> Inr (None, [''missing HSL_START or HSL_END'']))"
  using assms by (simp add: parseF5LogLine_cases zap_Error_def split: option.splits)

lemma missing_sentinel_no_event:
  assumes "Index line HSL_START < 0 \<or> Index line HSL_END < 0"
  shows "event_of (parseF5LogLine lg line) = None"
  using missing_sentinel [OF assms, of lg] by (simp add: event_of_def split: option.splits)

lemma handleConn_panic:
  "parseF5LogLine lg line = Inl p \<Longrightarrow> handleConn lg (line # lines) ch = Inl p"
  by simp

lemma handleConn_dropped:
  "parseF5LogLine lg line = Inr (None, log) \<Longrightarrow>
     handleConn lg (line # lines) ch = handleConn lg lines ch"
  by simp

text \<open>
  Claim C3. A line that lacks the start or the end sentinel should yield no event, be
  dropped with a logged reason, and never crash the receiver. No event is produced
  indeed (\<open>missing_sentinel_no_event\<close>), and with a logger the line is dropped with
  the reason logged (\<open>missing_sentinel\<close>). But the logger that \<open>parseF5LogLine\<close>
  uses is the package variable, which is nil: on a line without sentinels, and on a
  line with the start sentinel only, the call of \<open>logger.Error\<close> panics, and the panic
  ends \<open>handleConn\<close>.
\<close>

theorem missing_sentinel_crashes:
  "parseF5LogLine logger line_no_sentinel = Inl NilPointerDereference \<and>
   parseF5LogLine logger line_only_start = Inl NilPointerDereference \<and>
   handleConn logger [line_no_sentinel] (make_chan 10240) = Inl NilPointerDereference"
proof -
  have "Index line_no_sentinel HSL_START < 0" by code_simp
  then have a: "parseF5LogLine logger line_no_sentinel = Inl NilPointerDereference"
    by (simp add: missing_sentinel logger_def)
  have "Index line_only_start HSL_END < 0" by code_simp
  then have b: "parseF5LogLine logger line_only_start = Inl NilPointerDereference"
    by (simp add: missing_sentinel logger_def)
  from a have "handleConn logger [line_no_sentinel] (make_chan 10240)
      = Inl NilPointerDereference"
    by (rule handleConn_panic)
  with a b show ?thesis by simp
qed

text \<open>
  Claim C2. A line whose text between the sentinels splits into fewer than twelve
  fields should be dropped without reading a field that is not there. The guard of
  line 82 compares the number of fields with 10, not 12: with ten fields the read of
  \<open>parts[10]\<close> panics, with eleven the read of \<open>parts[11]\<close>, whatever the logger is.
\<close>

theorem short_line_crashes:
  "parseF5LogLine lg line_10_fields = Inl (IndexOutOfRange 10 10) \<and>
   parseF5LogLine lg line_11_fields = Inl (IndexOutOfRange 11 11)"
proof -
  have "Index line_10_fields HSL_START = 0" "Index line_10_fields HSL_END = 140"
    "length HSL_START = 83" "length (parts_of line_10_fields) = 10"
    by code_simp+
  then have a: "parseF5LogLine lg line_10_fields = Inl (IndexOutOfRange 10 10)"
    by (simp add: parseF5LogLine_cases)
  have "Index line_11_fields HSL_START = 0" "Index line_11_fields HSL_END = 145"
    "length HSL_START = 83" "length (parts_of line_11_fields) = 11"
    by code_simp+
  then have b: "parseF5LogLine lg line_11_fields = Inl (IndexOutOfRange 11 11)"
    by (simp add: parseF5LogLine_cases)
  from a b show ?thesis by simp
qed


subsection \<open>Latency and numeric fields\<close>

lemma parse_event_of:
  assumes "produced (parseF5LogLine lg line)"
  obtains ev log where "parseF5LogLine lg line = Inr (Some ev, log)"
  using assms by (auto simp: produced_def split: sum.splits prod.splits)

text \<open>
  Claim C5, as stated, fails when the response time is below the request time: for
  request time 1050 and response time 1000 the latency of the event is
  \<open>2 ^ 64 - 50000000\<close>, not \<open>(1000 - 1050) * 1000000\<close>.
\<close>

theorem latency_backwards:
  "reqTime_of line_backwards = 1050 \<and> respTime_of line_backwards = 1000 \<and>
   map_option uint (latency_of (parseF5LogLine logger line_backwards))
     = Some 18446744073659551616 \<and>
   (18446744073659551616 :: int) \<noteq> (1000 - 1050) * 1000000"
proof -
  have "reqTime_of line_backwards = 1050" "respTime_of line_backwards = 1000"
    "map_option uint (latency_of (parseF5LogLine logger line_backwards))
      = Some 18446744073659551616"
    by code_simp+
  then show ?thesis by simp
qed

text \<open>
  Claim C5, amended. For every line that yields an event, with request time \<open>r\<close> and
  response time \<open>s\<close> as parsed from the line, the backend latency of the event is
  \<open>(s - r) * 1000000\<close> modulo \<open>2 ^ 64\<close>; it equals \<open>(s - r) * 1000000\<close> whenever that
  product is an unsigned 64-bit value. Request time 1000 and response time 1050 give
  50000000.
\<close>

theorem latency_formula:
  assumes "parseF5LogLine lg line = Inr (Some ev, log)"
  shows "uint (BackendLatencyInNanos (Response ev))
           = ((sint (respTime_of line) - sint (reqTime_of line)) * 1000000) mod 2 ^ 64 \<and>
         (0 \<le> (sint (respTime_of line) - sint (reqTime_of line)) * 1000000 \<and>
          (sint (respTime_of line) - sint (reqTime_of line)) * 1000000 < 2 ^ 64 \<longrightarrow>
            uint (BackendLatencyInNanos (Response ev))
              = (sint (respTime_of line) - sint (reqTime_of line)) * 1000000)"
proof -
  have "uint (BackendLatencyInNanos (Response ev))
      = ((sint (respTime_of line) - sint (reqTime_of line)) * 1000000) mod 2 ^ 64"
    by (simp only: parse_latency [OF assms] latency_mod)
  then show ?thesis by simp
qed

theorem latency_formula_witness:
  "reqTime_of line_ok = 1000 \<and> respTime_of line_ok = 1050 \<and>
   map_option uint (latency_of (parseF5LogLine logger line_ok)) = Some 50000000"
proof -
  have p: "produced (parseF5LogLine logger line_ok)" by code_simp
  have r: "reqTime_of line_ok = 1000" and s: "respTime_of line_ok = 1050" by code_simp+
  from p obtain ev log where ev: "parseF5LogLine logger line_ok = Inr (Some ev, log)"
    by (rule parse_event_of)
  from latency_formula [OF ev] r s
  have "uint (BackendLatencyInNanos (Response ev)) = 50000000" by simp
  with ev r s show ?thesis by (simp add: latency_of_def event_of_def)
qed


lemma Atoi_not_decimal:
  "\<not> decimal s \<Longrightarrow> digit_run s \<le> 19 \<Longrightarrow> fst (Atoi s) = 0"
  by (simp add: Atoi_def ParseInt_not_decimal)

text \<open>
  Claim C10, as stated, fails for a field that is not numeric but starts with so many
  digits that \<open>strconv\<close> meets the overflow before the offending byte: the request
  time \<open>99999999999999999999x\<close> is parsed to the largest \<open>int64\<close>, not to 0.
\<close>

theorem digits_then_letter_not_zero:
  "parts_of line_digits_then_letter ! 10 = ''99999999999999999999x'' \<and>
   \<not> decimal ''99999999999999999999x'' \<and>
   produced (parseF5LogLine logger line_digits_then_letter) \<and>
   timestamp_of (parseF5LogLine logger line_digits_then_letter) = Some 9223372036854775807"
proof -
  have "parts_of line_digits_then_letter ! 10 = ''99999999999999999999x''"
    "\<not> decimal ''99999999999999999999x''"
    "produced (parseF5LogLine logger line_digits_then_letter)"
    "timestamp_of (parseF5LogLine logger line_digits_then_letter) = Some 9223372036854775807"
    by code_simp+
  then show ?thesis by simp
qed

lemma negative_mod:
  fixes k :: int
  assumes "k < 0" "- (2 ^ 63) \<le> k"
  shows "k mod 2 ^ 64 = k + 2 ^ 64"
proof -
  from assms have "0 \<le> k + 2 ^ 64" "k + 2 ^ 64 < 2 ^ 64" by simp_all
  then have "(k + 2 ^ 64) mod 2 ^ 64 = k + 2 ^ 64" by (rule mod_pos_pos_trivial)
  moreover have "(k + 2 ^ 64) mod 2 ^ 64 = k mod 2 ^ 64" by simp
  ultimately show ?thesis by simp
qed

lemma responsePayload_ok:
  assumes "lg \<noteq> None \<or> payload_ok rest"
  shows "\<exists>raw log. responsePayload lg rest = Inr (raw, log)"
  using assms
  by (cases lg)
     (auto simp: responsePayload_def payload_ok_def Let_def zap_Error_def
           split: prod.splits if_splits)

lemma responsePayload_bad:
  assumes "lg = None" "\<not> payload_ok rest"
  shows "responsePayload lg rest = Inl NilPointerDereference"
  using assms
  by (auto simp: responsePayload_def payload_ok_def Let_def zap_Error_def
           split: prod.splits if_splits)

lemma buildEvent_ok:
  assumes "lg \<noteq> None \<or> payload_ok (snd (extractHeaders
      (snd (extractHeaders (Join (drop 12 parts) '' '') REQHS REQHE)) RESPHS RESPHE))"
  shows "\<exists>ev log. buildEvent lg fixed parts = Inr (ev, log)"
proof -
  from responsePayload_ok [OF assms] obtain raw log
    where "responsePayload lg (snd (extractHeaders
      (snd (extractHeaders (Join (drop 12 parts) '' '') REQHS REQHE)) RESPHS RESPHE))
        = Inr (raw, log)"
    by blast
  then show ?thesis
    by (simp add: buildEvent_def Let_def split_beta)
qed

lemma buildEvent_bad:
  assumes "lg = None" "\<not> payload_ok (snd (extractHeaders
      (snd (extractHeaders (Join (drop 12 parts) '' '') REQHS REQHE)) RESPHS RESPHE))"
  shows "buildEvent lg fixed parts = Inl NilPointerDereference"
  using responsePayload_bad [OF assms]
  by (simp add: buildEvent_def Let_def split_beta)

lemma parse_full_line:
  assumes "0 \<le> Index line HSL_START"
    and "Index line HSL_START + int (length HSL_START) \<le> Index line HSL_END"
    and "12 \<le> length (parts_of line)"
  shows "parseF5LogLine lg line =
     and_then (buildEvent lg (take 12 (parts_of line)) (parts_of line))
       (\<lambda>(ev, log). Inr (Some ev, log))"
  using assms by (simp add: parseF5LogLine_cases)

lemma parse_full_line_produced:
  assumes "0 \<le> Index line HSL_START"
    and "Index line HSL_START + int (length HSL_START) \<le> Index line HSL_END"
    and "12 \<le> length (parts_of line)"
    and "lg \<noteq> None \<or> payload_ok (payloads_of line)"
  shows "produced (parseF5LogLine lg line)"
proof -
  from assms(4) obtain ev log
    where "buildEvent lg (take 12 (parts_of line)) (parts_of line) = Inr (ev, log)"
    using buildEvent_ok [of lg "parts_of line" "take 12 (parts_of line)"]
    by (auto simp: payloads_of_def rest_of_def)
  with parse_full_line [OF assms(1-3), of lg] show ?thesis
    by (simp add: produced_def)
qed

lemma parse_full_line_crash:
  assumes "0 \<le> Index line HSL_START"
    and "Index line HSL_START + int (length HSL_START) \<le> Index line HSL_END"
    and "12 \<le> length (parts_of line)"
    and "lg = None" "\<not> payload_ok (payloads_of line)"
  shows "parseF5LogLine lg line = Inl NilPointerDereference"
proof -
  from assms(4,5)
  have "buildEvent lg (take 12 (parts_of line)) (parts_of line) = Inl NilPointerDereference"
    by (intro buildEvent_bad) (simp_all add: payloads_of_def rest_of_def)
  with parse_full_line [OF assms(1-3), of lg] show ?thesis by simp
qed


lemma produced_not_dropped: "produced r \<Longrightarrow> \<not> dropped r"
  by (auto simp: produced_def dropped_def split: sum.splits prod.splits)

text \<open>
  Claim C10, amended. A line with both sentinels in order and at least twelve fields is
  never dropped, whatever its port and time fields hold: it yields an event, unless
  the response payload is corrupt and the logger is nil, in which case the call that
  would log the corruption panics. For the event, the backend latency is
  \<open>(s - r) * 1000000\<close> taken modulo \<open>2 ^ 64\<close>; when the response time is below the
  request time and the product is an \<open>int64\<close>, this is a value of at least \<open>2 ^ 63\<close>.
  A port or time field that is not a decimal number, and whose run of leading digits
  is at most 19 long, is parsed to 0.
\<close>

theorem latency_wraps:
  assumes "0 \<le> Index line HSL_START"
    and "Index line HSL_START + int (length HSL_START) \<le> Index line HSL_END"
    and "12 \<le> length (parts_of line)"
  shows "\<not> dropped (parseF5LogLine lg line) \<and>
         produced (parseF5LogLine lg line) = (lg \<noteq> None \<or> payload_ok (payloads_of line)) \<and>
         (\<forall>ev log. parseF5LogLine lg line = Inr (Some ev, log) \<longrightarrow>
            uint (BackendLatencyInNanos (Response ev))
              = ((sint (respTime_of line) - sint (reqTime_of line)) * 1000000) mod 2 ^ 64 \<and>
            (sint (respTime_of line) < sint (reqTime_of line) \<and>
             - (2 ^ 63) \<le> (sint (respTime_of line) - sint (reqTime_of line)) * 1000000 \<longrightarrow>
               2 ^ 63 \<le> uint (BackendLatencyInNanos (Response ev))) \<and>
            (\<not> decimal (parts_of line ! 10) \<and> digit_run (parts_of line ! 10) \<le> 19 \<longrightarrow>
               reqTime_of line = 0 \<and> Timestamp (Metadata ev) = 0) \<and>
            (\<not> decimal (parts_of line ! 11) \<and> digit_run (parts_of line ! 11) \<le> 19 \<longrightarrow>
               respTime_of line = 0) \<and>
            (\<not> decimal (parts_of line ! 5) \<and> digit_run (parts_of line ! 5) \<le> 19 \<longrightarrow>
               Port (Source ev) = 0) \<and>
            (\<not> decimal (parts_of line ! 7) \<and> digit_run (parts_of line ! 7) \<le> 19 \<longrightarrow>
               Port (Destination ev) = 0))"
proof (intro conjI allI impI)
  show nd: "\<not> dropped (parseF5LogLine lg line)"
  proof (cases "lg \<noteq> None \<or> payload_ok (payloads_of line)")
    case True
    with assms have "produced (parseF5LogLine lg line)" by (rule parse_full_line_produced)
    then show ?thesis by (rule produced_not_dropped)
  next
    case False
    with assms have "parseF5LogLine lg line = Inl NilPointerDereference"
      by (intro parse_full_line_crash) simp_all
    then show ?thesis by (simp add: dropped_def)
  qed
  show "produced (parseF5LogLine lg line) = (lg \<noteq> None \<or> payload_ok (payloads_of line))"
  proof (cases "lg \<noteq> None \<or> payload_ok (payloads_of line)")
    case True
    with assms have "produced (parseF5LogLine lg line)" by (rule parse_full_line_produced)
    with True show ?thesis by simp
  next
    case False
    with assms have "parseF5LogLine lg line = Inl NilPointerDereference"
      by (intro parse_full_line_crash) simp_all
    with False show ?thesis by (simp add: produced_def)
  qed
next
  fix ev log
  assume p: "parseF5LogLine lg line = Inr (Some ev, log)"
  let ?k = "(sint (respTime_of line) - sint (reqTime_of line)) * 1000000"
  note ev = parse_event [OF p]
  note f = buildEvent_fields [OF ev(2)]
  from ev(1) have nth: "take 12 (parts_of line) ! 5 = parts_of line ! 5"
    "take 12 (parts_of line) ! 7 = parts_of line ! 7"
    "take 12 (parts_of line) ! 10 = parts_of line ! 10"
    by simp_all
  show lat: "uint (BackendLatencyInNanos (Response ev)) = ?k mod 2 ^ 64"
    by (simp only: parse_latency [OF p] latency_mod)
  show "2 ^ 63 \<le> uint (BackendLatencyInNanos (Response ev))"
    if "sint (respTime_of line) < sint (reqTime_of line) \<and> - (2 ^ 63) \<le> ?k"
  proof -
    from that have "?k < 0" by simp
    with that have "?k mod 2 ^ 64 = ?k + 2 ^ 64"
      by (intro negative_mod) simp_all
    with that lat show ?thesis by simp
  qed
  show "reqTime_of line = 0"
    if "\<not> decimal (parts_of line ! 10) \<and> digit_run (parts_of line ! 10) \<le> 19"
    using that by (simp add: reqTime_of_def ParseInt_not_decimal)
  show "Timestamp (Metadata ev) = 0"
    if "\<not> decimal (parts_of line ! 10) \<and> digit_run (parts_of line ! 10) \<le> 19"
    using that f(2) nth by (simp add: ParseInt_not_decimal)
  show "respTime_of line = 0"
    if "\<not> decimal (parts_of line ! 11) \<and> digit_run (parts_of line ! 11) \<le> 19"
    using that by (simp add: respTime_of_def ParseInt_not_decimal)
  show "Port (Source ev) = 0"
    if "\<not> decimal (parts_of line ! 5) \<and> digit_run (parts_of line ! 5) \<le> 19"
    using that f(3) nth by (simp add: Atoi_not_decimal)
  show "Port (Destination ev) = 0"
    if "\<not> decimal (parts_of line ! 7) \<and> digit_run (parts_of line ! 7) \<le> 19"
    using that f(4) nth by (simp add: Atoi_not_decimal)
qed

theorem latency_wraps_witness:
  "0 \<le> Index line_backwards HSL_START \<and>
   Index line_backwards HSL_START + int (length HSL_START) \<le> Index line_backwards HSL_END \<and>
   12 \<le> length (parts_of line_backwards) \<and>
   sint (respTime_of line_backwards) < sint (reqTime_of line_backwards) \<and>
   map_option uint (latency_of (parseF5LogLine logger line_backwards))
     = Some (2 ^ 64 - 50000000) \<and>
   0 \<le> Index line_not_numeric HSL_START \<and>
   Index line_not_numeric HSL_START + int (length HSL_START)
     \<le> Index line_not_numeric HSL_END \<and>
   12 \<le> length (parts_of line_not_numeric) \<and>
   \<not> decimal (parts_of line_not_numeric ! 5) \<and> \<not> decimal (parts_of line_not_numeric ! 7) \<and>
   \<not> decimal (parts_of line_not_numeric ! 10) \<and> \<not> decimal (parts_of line_not_numeric ! 11) \<and>
   \<not> dropped (parseF5LogLine logger line_not_numeric) \<and>
   produced (parseF5LogLine logger line_not_numeric) \<and>
   ports_of (parseF5LogLine logger line_not_numeric) = Some (0, 0) \<and>
   timestamp_of (parseF5LogLine logger line_not_numeric) = Some 0 \<and>
   latency_of (parseF5LogLine logger line_not_numeric) = Some 0"
proof -
  have len: "length HSL_START = 83" by code_simp
  have i1: "Index line_backwards HSL_START = 0" "Index line_backwards HSL_END = 150"
    and l1: "length (parts_of line_backwards) = 12"
    and ok1: "payload_ok (payloads_of line_backwards)"
    by code_simp+
  have h1: "0 \<le> Index line_backwards HSL_START"
    "Index line_backwards HSL_START + int (length HSL_START) \<le> Index line_backwards HSL_END"
    "12 \<le> length (parts_of line_backwards)"
    using i1 l1 len by simp_all
  have r1: "reqTime_of line_backwards = 1050" and s1: "respTime_of line_backwards = 1000"
    by code_simp+
  note w1 = latency_wraps [OF h1, of logger]
  from w1 ok1 have "produced (parseF5LogLine logger line_backwards)" by simp
  then obtain ev1 log1
    where ev1: "parseF5LogLine logger line_backwards = Inr (Some ev1, log1)"
    by (rule parse_event_of)
  with w1 r1 s1
  have "uint (BackendLatencyInNanos (Response ev1)) = 2 ^ 64 - 50000000" by simp
  with ev1 have a: "map_option uint (latency_of (parseF5LogLine logger line_backwards))
      = Some (2 ^ 64 - 50000000)"
    by (simp add: latency_of_def event_of_def)
  have i2: "Index line_not_numeric HSL_START = 0" "Index line_not_numeric HSL_END = 147"
    and l2: "length (parts_of line_not_numeric) = 12"
    and ok2: "payload_ok (payloads_of line_not_numeric)"
    by code_simp+
  have h2: "0 \<le> Index line_not_numeric HSL_START"
    "Index line_not_numeric HSL_START + int (length HSL_START)
       \<le> Index line_not_numeric HSL_END"
    "12 \<le> length (parts_of line_not_numeric)"
    using i2 l2 len by simp_all
  have n: "\<not> decimal (parts_of line_not_numeric ! 5)" "\<not> decimal (parts_of line_not_numeric ! 7)"
    "\<not> decimal (parts_of line_not_numeric ! 10)" "\<not> decimal (parts_of line_not_numeric ! 11)"
    by code_simp+
  have d: "digit_run (parts_of line_not_numeric ! 5) \<le> 19"
    "digit_run (parts_of line_not_numeric ! 7) \<le> 19"
    "digit_run (parts_of line_not_numeric ! 10) \<le> 19"
    "digit_run (parts_of line_not_numeric ! 11) \<le> 19"
    by code_simp+
  note w2 = latency_wraps [OF h2, of logger]
  from w2 have nd: "\<not> dropped (parseF5LogLine logger line_not_numeric)" by simp
  from w2 ok2 have p2: "produced (parseF5LogLine logger line_not_numeric)" by simp
  then obtain ev2 log2
    where ev2: "parseF5LogLine logger line_not_numeric = Inr (Some ev2, log2)"
    by (rule parse_event_of)
  with w2 n d
  have z: "reqTime_of line_not_numeric = 0" "respTime_of line_not_numeric = 0"
    "Timestamp (Metadata ev2) = 0" "Port (Source ev2) = 0" "Port (Destination ev2) = 0"
    "uint (BackendLatencyInNanos (Response ev2))
       = ((sint (respTime_of line_not_numeric) - sint (reqTime_of line_not_numeric)) * 1000000)
           mod 2 ^ 64"
    by simp_all
  then have "uint (BackendLatencyInNanos (Response ev2)) = 0" by simp
  then have "BackendLatencyInNanos (Response ev2) = 0" by (simp add: uint_0_iff)
  with ev2 z have b: "ports_of (parseF5LogLine logger line_not_numeric) = Some (0, 0)"
    "timestamp_of (parseF5LogLine logger line_not_numeric) = Some 0"
    "latency_of (parseF5LogLine logger line_not_numeric) = Some 0"
    by (simp_all add: ports_of_def timestamp_of_def latency_of_def event_of_def)
  from h1 h2 r1 s1 a n nd p2 b show ?thesis by simp
qed

section \<open>Properties of the HTTP exporter's client\<close>

lemma apply_tls_merge:
  assumes "apply_tls rf lk t tc = Inr c"
  shows "c = merge_tls rf lk (case tc of None \<Rightarrow> fresh_tls | Some c0 \<Rightarrow> c0) [t]"
  using assms
  by (cases tc)
     (auto simp: apply_tls_def merge_tls_def fresh_tls_def ca_paths_def key_pairs_def Let_def
           split: if_splits option.splits sum.splits)

lemma merge_tls_Cons:
  "merge_tls rf lk (merge_tls rf lk c [t]) ts = merge_tls rf lk c (t # ts)"
  by (auto simp: merge_tls_def ca_paths_def key_pairs_def)

lemma merge_tls_Nil: "merge_tls rf lk c [] = c"
  by (simp add: merge_tls_def ca_paths_def key_pairs_def)

lemma tls_policies_Cons:
  "tls_policies (wh # whs) =
     (if HasPrefix (ToLower (wh_URL wh)) ''https://'' \<and> wh_TLS wh \<noteq> None
      then the (wh_TLS wh) # tls_policies whs else tls_policies whs)"
  by (simp add: tls_policies_def)

lemma tls_loop_Some:
  assumes "tls_loop rf lk whs (Some c) = Inr r"
  shows "r = Some (merge_tls rf lk c (tls_policies whs))"
  using assms
proof (induction whs arbitrary: c)
  case Nil
  then show ?case by (simp add: tls_policies_def merge_tls_Nil)
next
  case (Cons wh whs)
  show ?case
  proof (cases "HasPrefix (ToLower (wh_URL wh)) ''https://'' \<and> wh_TLS wh \<noteq> None")
    case False
    with Cons.prems have "tls_loop rf lk whs (Some c) = Inr r"
      by (auto split: option.splits)
    with Cons.IH False show ?thesis by (auto simp: tls_policies_Cons)
  next
    case True
    then obtain t where t: "wh_TLS wh = Some t" by auto
    with True Cons.prems obtain c' where c': "apply_tls rf lk t (Some c) = Inr c'"
      and loop: "tls_loop rf lk whs (Some c') = Inr r"
      by (auto split: sum.splits)
    from apply_tls_merge [OF c'] have "c' = merge_tls rf lk c [t]" by simp
    with Cons.IH [OF loop] True t show ?thesis
      by (simp add: tls_policies_Cons merge_tls_Cons)
  qed
qed

lemma tls_loop_None:
  assumes "tls_loop rf lk whs None = Inr r"
  shows "r = (if tls_policies whs = [] then None
              else Some (merge_tls rf lk fresh_tls (tls_policies whs)))"
  using assms
proof (induction whs)
  case Nil
  then show ?case by (simp add: tls_policies_def)
next
  case (Cons wh whs)
  show ?case
  proof (cases "HasPrefix (ToLower (wh_URL wh)) ''https://'' \<and> wh_TLS wh \<noteq> None")
    case False
    with Cons.prems have "tls_loop rf lk whs None = Inr r"
      by (auto split: option.splits)
    with Cons.IH False show ?thesis by (auto simp: tls_policies_Cons)
  next
    case True
    then obtain t where t: "wh_TLS wh = Some t" by auto
    with True Cons.prems obtain c' where c': "apply_tls rf lk t None = Inr c'"
      and loop: "tls_loop rf lk whs (Some c') = Inr r"
      by (auto split: sum.splits)
    from apply_tls_merge [OF c'] have "c' = merge_tls rf lk fresh_tls [t]" by simp
    with tls_loop_Some [OF loop] True t show ?thesis
      by (simp add: tls_policies_Cons merge_tls_Cons)
  qed
qed

lemma tls_loop_no_policy:
  "tls_policies whs = [] \<Longrightarrow> tls_loop rf lk whs tc = Inr tc"
proof (induction whs)
  case Nil
  then show ?case by simp
next
  case (Cons wh whs)
  then show ?case by (auto simp: tls_policies_Cons split: if_splits option.splits)
qed

text \<open>
  Claim C6, amended. The client is a function of the configuration and of the files
  that the configuration names. When no webhook with an \<open>https://\<close> URL has a TLS
  block, the transport has no TLS configuration of its own. Otherwise, when the
  construction succeeds, the one TLS configuration of the shared transport has
  \<open>InsecureSkipVerify\<close> set exactly when one of those TLS blocks sets it, its root
  pool holds the certificate file of the last of them that names one, and its client
  certificate is the pair of the last of them that names both files: a later webhook
  replaces what an earlier one supplied.
\<close>

theorem buildHTTPClient_result:
  "(tls_policies (Webhooks cfg) = [] \<longrightarrow>
      buildHTTPClient readFile loadX509KeyPair cfg
        = Inr \<lparr>Timeout = uint (TimeoutSeconds cfg) * Second,
               Transport = \<lparr>TLSHandshakeTimeout = 10 * Second, TLSClientConfig = None\<rparr>\<rparr>) \<and>
   (\<forall>c. buildHTTPClient readFile loadX509KeyPair cfg = Inr c \<and>
        tls_policies (Webhooks cfg) \<noteq> [] \<longrightarrow>
      TLSClientConfig (Transport c)
        = Some \<lparr>MinVersion = VersionTLS12,
             RootCAs = (if ca_paths (tls_policies (Webhooks cfg)) = [] then None
                        else Some [the (readFile (last (ca_paths (tls_policies (Webhooks cfg)))))]),
             Certificates = (if key_pairs (tls_policies (Webhooks cfg)) = [] then []
                else [the (loadX509KeyPair
                             (fst (last (key_pairs (tls_policies (Webhooks cfg)))))
                             (snd (last (key_pairs (tls_policies (Webhooks cfg))))))]),
             tls_InsecureSkipVerify
               = list_ex InsecureSkipVerify (tls_policies (Webhooks cfg))\<rparr>)"
proof (intro conjI allI impI)
  assume "tls_policies (Webhooks cfg) = []"
  then show "buildHTTPClient readFile loadX509KeyPair cfg
        = Inr \<lparr>Timeout = uint (TimeoutSeconds cfg) * Second,
               Transport = \<lparr>TLSHandshakeTimeout = 10 * Second, TLSClientConfig = None\<rparr>\<rparr>"
    by (simp add: buildHTTPClient_def tls_loop_no_policy)
next
  fix c
  assume a: "buildHTTPClient readFile loadX509KeyPair cfg = Inr c \<and>
        tls_policies (Webhooks cfg) \<noteq> []"
  then obtain r where r: "tls_loop readFile loadX509KeyPair (Webhooks cfg) None = Inr r"
    and c: "TLSClientConfig (Transport c) = r"
    by (auto simp: buildHTTPClient_def Let_def split: sum.splits)
  from tls_loop_None [OF r] a c
  show "TLSClientConfig (Transport c)
        = Some \<lparr>MinVersion = VersionTLS12,
             RootCAs = (if ca_paths (tls_policies (Webhooks cfg)) = [] then None
                        else Some [the (readFile (last (ca_paths (tls_policies (Webhooks cfg)))))]),
             Certificates = (if key_pairs (tls_policies (Webhooks cfg)) = [] then []
                else [the (loadX509KeyPair
                             (fst (last (key_pairs (tls_policies (Webhooks cfg)))))
                             (snd (last (key_pairs (tls_policies (Webhooks cfg))))))]),
             tls_InsecureSkipVerify
               = list_ex InsecureSkipVerify (tls_policies (Webhooks cfg))\<rparr>"
    by (simp add: merge_tls_def fresh_tls_def)
qed


text \<open>
  Claim C6, as stated, fails: of two HTTPS webhooks that each supply a CA certificate,
  the transport trusts the second one's only, not the union; and a webhook with
  \<open>InsecureSkipVerify\<close> set whose URL is not \<open>https://\<close> leaves the transport without
  any TLS configuration.
\<close>

theorem last_ca_replaces_first:
  "buildHTTPClient files_example pairs_example (http_config [webhook_a, webhook_b])
     = Inr \<lparr>Timeout = 5000000000,
            Transport = \<lparr>TLSHandshakeTimeout = 10000000000,
              TLSClientConfig = Some \<lparr>MinVersion = 0x0303, RootCAs = Some [''CERT-B''],
                Certificates = [(''CLIENT-CERT'', ''CLIENT-KEY'')],
                tls_InsecureSkipVerify = True\<rparr>\<rparr>\<rparr> \<and>
   map_option CACertPath (wh_TLS webhook_a) = Some ''/etc/ca-a.pem'' \<and>
   files_example ''/etc/ca-a.pem'' = Some ''CERT-A'' \<and>
   ''CERT-A'' \<notin> set [''CERT-B''] \<and>
   map_option InsecureSkipVerify (wh_TLS webhook_plain) = Some True \<and>
   buildHTTPClient files_example pairs_example (http_config [webhook_plain])
     = Inr \<lparr>Timeout = 5000000000,
            Transport = \<lparr>TLSHandshakeTimeout = 10000000000, TLSClientConfig = None\<rparr>\<rparr>"
proof -
  have "buildHTTPClient files_example pairs_example (http_config [webhook_a, webhook_b])
     = Inr \<lparr>Timeout = 5000000000,
            Transport = \<lparr>TLSHandshakeTimeout = 10000000000,
              TLSClientConfig = Some \<lparr>MinVersion = 0x0303, RootCAs = Some [''CERT-B''],
                Certificates = [(''CLIENT-CERT'', ''CLIENT-KEY'')],
                tls_InsecureSkipVerify = True\<rparr>\<rparr>\<rparr>"
    by code_simp
  moreover have "map_option CACertPath (wh_TLS webhook_a) = Some ''/etc/ca-a.pem''"
    "files_example ''/etc/ca-a.pem'' = Some ''CERT-A''"
    "map_option InsecureSkipVerify (wh_TLS webhook_plain) = Some True"
    by code_simp+
  moreover have "buildHTTPClient files_example pairs_example (http_config [webhook_plain])
     = Inr \<lparr>Timeout = 5000000000,
            Transport = \<lparr>TLSHandshakeTimeout = 10000000000, TLSClientConfig = None\<rparr>\<rparr>"
    by code_simp
  ultimately show ?thesis by simp
qed

theorem buildHTTPClient_result_witness:
  "tls_policies (Webhooks (http_config [webhook_public])) = [] \<and>
   buildHTTPClient files_example pairs_example (http_config [webhook_public])
     = Inr \<lparr>Timeout = 5000000000,
            Transport = \<lparr>TLSHandshakeTimeout = 10000000000, TLSClientConfig = None\<rparr>\<rparr> \<and>
   tls_policies (Webhooks (http_config [webhook_public, webhook_b])) \<noteq> [] \<and>
   map_option (\<lambda>c. TLSClientConfig (Transport c))
     (case buildHTTPClient files_example pairs_example (http_config [webhook_public, webhook_b])
      of Inl e \<Rightarrow> None | Inr c \<Rightarrow> Some c)
     = Some (Some \<lparr>MinVersion = VersionTLS12, RootCAs = Some [''CERT-B''],
               Certificates = [(''CLIENT-CERT'', ''CLIENT-KEY'')],
               tls_InsecureSkipVerify = True\<rparr>)"
proof -
  let ?cfg1 = "http_config [webhook_public]"
  let ?cfg2 = "http_config [webhook_public, webhook_b]"
  have p1: "tls_policies (Webhooks ?cfg1) = []" by code_simp
  from buildHTTPClient_result [of ?cfg1 files_example pairs_example] p1
  have "buildHTTPClient files_example pairs_example ?cfg1
      = Inr \<lparr>Timeout = uint (TimeoutSeconds ?cfg1) * Second,
             Transport = \<lparr>TLSHandshakeTimeout = 10 * Second, TLSClientConfig = None\<rparr>\<rparr>"
    by blast
  then have a: "buildHTTPClient files_example pairs_example ?cfg1
      = Inr \<lparr>Timeout = 5000000000,
            Transport = \<lparr>TLSHandshakeTimeout = 10000000000, TLSClientConfig = None\<rparr>\<rparr>"
    by (simp add: http_config_def Second_def)
  have p2: "tls_policies (Webhooks ?cfg2) \<noteq> []" by code_simp
  have ok: "case buildHTTPClient files_example pairs_example ?cfg2 of
              Inl e \<Rightarrow> False | Inr c \<Rightarrow> True"
    by code_simp
  then obtain c where c: "buildHTTPClient files_example pairs_example ?cfg2 = Inr c"
    by (auto split: sum.splits)
  have v: "ca_paths (tls_policies (Webhooks ?cfg2)) = [''/etc/ca-b.pem'']"
    "key_pairs (tls_policies (Webhooks ?cfg2)) = [(''/etc/client.crt'', ''/etc/client.key'')]"
    "list_ex InsecureSkipVerify (tls_policies (Webhooks ?cfg2))"
    "files_example ''/etc/ca-b.pem'' = Some ''CERT-B''"
    "pairs_example ''/etc/client.crt'' ''/etc/client.key'' = Some (''CLIENT-CERT'', ''CLIENT-KEY'')"
    by code_simp+
  from buildHTTPClient_result [of ?cfg2 files_example pairs_example] c p2
  have "TLSClientConfig (Transport c)
      = Some \<lparr>MinVersion = VersionTLS12,
           RootCAs = (if ca_paths (tls_policies (Webhooks ?cfg2)) = [] then None
              else Some [the (files_example (last (ca_paths (tls_policies (Webhooks ?cfg2)))))]),
           Certificates = (if key_pairs (tls_policies (Webhooks ?cfg2)) = [] then []
              else [the (pairs_example
                           (fst (last (key_pairs (tls_policies (Webhooks ?cfg2)))))
                           (snd (last (key_pairs (tls_policies (Webhooks ?cfg2))))))]),
           tls_InsecureSkipVerify = list_ex InsecureSkipVerify (tls_policies (Webhooks ?cfg2))\<rparr>"
    by blast
  with v have "TLSClientConfig (Transport c)
      = Some \<lparr>MinVersion = VersionTLS12, RootCAs = Some [''CERT-B''],
               Certificates = [(''CLIENT-CERT'', ''CLIENT-KEY'')],
               tls_InsecureSkipVerify = True\<rparr>"
    by simp
  with c p1 p2 a show ?thesis by simp
qed

end
